theory Spec2Isabelle
  imports Complex_Main "HOL-Library.AList"
begin

section \<open>Strings\<close>

text \<open>
  Python \<^verbatim>\<open>str\<close> values are modelled as \<^typ>\<open>string\<close>: lists of 8-bit characters that hold
  the text in UTF-8. The embedding is exact for ASCII text. Equality and substring search
  agree with Python on every text (UTF-8 is self-synchronising); \<^verbatim>\<open>lower\<close>,
  \<^verbatim>\<open>strip\<close>, \<^verbatim>\<open>isalnum\<close> and \<^verbatim>\<open>\s\<close> treat the ASCII range as Python does and leave
  every byte from 0x80 on alone.
\<close>

definition BACKSLASH :: char where
  "BACKSLASH = CHR 0x5C"

definition isspace :: "char \<Rightarrow> bool" where
  "isspace c \<longleftrightarrow>
     c \<in> set [CHR 0x09, CHR 0x0A, CHR 0x0B, CHR 0x0C, CHR 0x0D,
               CHR 0x1C, CHR 0x1D, CHR 0x1E, CHR 0x1F, CHR 0x20]"

definition strip :: "string \<Rightarrow> string" where
  "strip s = rev (dropWhile isspace (rev (dropWhile isspace s)))"

definition lower_char :: "char \<Rightarrow> char" where
  "lower_char c =
     (let n = (of_char c :: nat) in if 65 \<le> n \<and> n \<le> 90 then char_of (n + 32) else c)"

definition lower :: "string \<Rightarrow> string" where
  "lower s = map lower_char s"

fun startswith :: "string \<Rightarrow> string \<Rightarrow> bool" where
  "startswith s [] = True"
| "startswith [] (p # ps) = False"
| "startswith (c # cs) (p # ps) = (c = p \<and> startswith cs ps)"

text \<open>\<^verbatim>\<open>p in s\<close> on strings: \<^term>\<open>p\<close> occurs in \<^term>\<open>s\<close> as a contiguous run.\<close>

fun contains :: "string \<Rightarrow> string \<Rightarrow> bool" where
  "contains [] p = (p = [])"
| "contains (c # cs) p = (startswith (c # cs) p \<or> contains cs p)"

text \<open>\<^verbatim>\<open>sep.join(parts)\<close>.\<close>

fun join :: "string \<Rightarrow> string list \<Rightarrow> string" where
  "join sep [] = []"
| "join sep [p] = p"
| "join sep (p # q # ps) = p @ sep @ join sep (q # ps)"

text \<open>\<^verbatim>\<open>s[a:b]\<close> for \<^verbatim>\<open>0 <= a\<close>.\<close>

definition slice :: "string \<Rightarrow> nat \<Rightarrow> nat \<Rightarrow> string" where
  "slice s a b = take (b - a) (drop a s)"

definition isdigit :: "char \<Rightarrow> bool" where
  "isdigit c \<longleftrightarrow> (let n = (of_char c :: nat) in 48 \<le> n \<and> n \<le> 57)"

definition digit_val :: "char \<Rightarrow> nat" where
  "digit_val c = of_char c - 48"

definition nat_of_digits :: "string \<Rightarrow> nat" where
  "nat_of_digits ds = foldl (\<lambda>acc c. 10 * acc + digit_val c) 0 ds"

section \<open>JSON values and \<^verbatim>\<open>json.loads\<close>\<close>

text \<open>
  The values \<^verbatim>\<open>json.loads\<close> builds. A Python \<^verbatim>\<open>float\<close> is kept as the numeral text it was
  read from (\<^verbatim>\<open>NaN\<close>, \<^verbatim>\<open>Infinity\<close> and \<^verbatim>\<open>-Infinity\<close> included): no operation of the
  program computes with one. A \<^verbatim>\<open>dict\<close> is an association list with distinct keys in
  insertion order.
\<close>

datatype json =
    JNull
  | JBool bool
  | JInt int
  | JFloat string
  | JStr string
  | JArr "json list"
  | JObj "(string \<times> json) list"

text \<open>\<^verbatim>\<open>dict(pairs)\<close>: a later pair with the same key replaces the value in place.\<close>

definition dict :: "(string \<times> json) list \<Rightarrow> (string \<times> json) list" where
  "dict pairs = foldl (\<lambda>d (k, v). AList.update k v d) [] pairs"

definition json_ws :: "char \<Rightarrow> bool" where
  "json_ws c \<longleftrightarrow> c \<in> set [CHR 0x20, CHR 0x09, CHR 0x0A, CHR 0x0D]"

definition skip_ws :: "string \<Rightarrow> string" where
  "skip_ws s = dropWhile json_ws s"

definition hex_val :: "char \<Rightarrow> nat option" where
  "hex_val c =
     (let n = (of_char c :: nat) in
      if 48 \<le> n \<and> n \<le> 57 then Some (n - 48)
      else if 97 \<le> n \<and> n \<le> 102 then Some (n - 87)
      else if 65 \<le> n \<and> n \<le> 70 then Some (n - 55)
      else None)"

text \<open>Four hexadecimal digits of a \<^verbatim>\<open>\uXXXX\<close> escape, and the text after them.\<close>

fun decode_uXXXX :: "string \<Rightarrow> (nat \<times> string) option" where
  "decode_uXXXX (a # b # c # d # rest) =
     (case (hex_val a, hex_val b, hex_val c, hex_val d) of
        (Some x, Some y, Some z, Some w) \<Rightarrow> Some (((x * 16 + y) * 16 + z) * 16 + w, rest)
      | _ \<Rightarrow> None)"
| "decode_uXXXX _ = None"

text \<open>\<^verbatim>\<open>chr(u)\<close>, written in UTF-8 as every other character of the model is.\<close>

definition utf8 :: "nat \<Rightarrow> string" where
  "utf8 u =
     (if u < 0x80 then [char_of u]
      else if u < 0x800 then [char_of (0xC0 + u div 64), char_of (0x80 + u mod 64)]
      else if u < 0x10000 then
        [char_of (0xE0 + u div 4096), char_of (0x80 + (u div 64) mod 64), char_of (0x80 + u mod 64)]
      else
        [char_of (0xF0 + u div 262144), char_of (0x80 + (u div 4096) mod 64),
         char_of (0x80 + (u div 64) mod 64), char_of (0x80 + u mod 64)])"

definition backslash_escape :: "char \<Rightarrow> char option" where
  \<open>backslash_escape e =
     (if e = CHR ''"'' then Some (CHR ''"'')
      else if e = BACKSLASH then Some BACKSLASH
      else if e = CHR ''/'' then Some (CHR ''/'')
      else if e = CHR ''b'' then Some (CHR 0x08)
      else if e = CHR ''f'' then Some (CHR 0x0C)
      else if e = CHR ''n'' then Some (CHR 0x0A)
      else if e = CHR ''r'' then Some (CHR 0x0D)
      else if e = CHR ''t'' then Some (CHR 0x09)
      else None)\<close>

text \<open>
  One escape sequence, read after its backslash: the decoded text and what follows. A
  high surrogate followed by an escaped low surrogate is one character.
\<close>

definition scan_escape :: "string \<Rightarrow> (string \<times> string) option" where
  "scan_escape s =
     (case s of
        [] \<Rightarrow> None
      | e # es \<Rightarrow>
          if e = CHR ''u'' then
            (case decode_uXXXX es of
               None \<Rightarrow> None
             | Some (uni, r) \<Rightarrow>
                 if 0xD800 \<le> uni \<and> uni \<le> 0xDBFF \<and> startswith r [BACKSLASH, CHR ''u''] then
                   (case decode_uXXXX (drop 2 r) of
                      None \<Rightarrow> None
                    | Some (uni2, r2) \<Rightarrow>
                        if 0xDC00 \<le> uni2 \<and> uni2 \<le> 0xDFFF
                        then Some (utf8 (0x10000 + (uni - 0xD800) * 1024 + (uni2 - 0xDC00)), r2)
                        else Some (utf8 uni, r))
                 else Some (utf8 uni, r))
          else (case backslash_escape e of None \<Rightarrow> None | Some ch \<Rightarrow> Some ([ch], es)))"

lemma decode_uXXXX_length:
  "decode_uXXXX s = Some (u, r) \<Longrightarrow> length r < length s"
  by (induction s rule: decode_uXXXX.induct) (auto split: option.splits)

lemma scan_escape_length:
  "scan_escape s = Some (t, r) \<Longrightarrow> length r < length s"
  unfolding scan_escape_def
  by (auto split: list.splits option.splits if_splits
      dest!: decode_uXXXX_length)

text \<open>
  \<^verbatim>\<open>scanstring(s, end, strict=True)\<close>, read after the opening quote: the decoded string
  and the text after the closing quote, or \<^term>\<open>None\<close> where Python raises
  (unterminated string, control character, invalid escape).
\<close>

function scanstring :: "string \<Rightarrow> (string \<times> string) option" where
  \<open>scanstring [] = None\<close>
| \<open>scanstring (c # cs) =
     (if c = CHR ''"'' then Some ([], cs)
      else if c = BACKSLASH then
        (case scan_escape cs of
           None \<Rightarrow> None
         | Some (t, r) \<Rightarrow> map_option (\<lambda>(str, r'). (t @ str, r')) (scanstring r))
      else if (of_char c :: nat) < 32 then None
      else map_option (\<lambda>(str, r'). (c # str, r')) (scanstring cs))\<close>
  by pat_completeness auto
termination
  by (relation "measure length") (auto dest: scan_escape_length)

text \<open>
  A number at the head of the text, as
  \<^verbatim>\<open>(-?(?:0|[1-9]\d*))(\.\d+)?([eE][-+]?\d+)?\<close> matches it: an \<^verbatim>\<open>int\<close> when neither a
  fraction nor an exponent was read.
\<close>

definition match_frac :: "string \<Rightarrow> string \<times> string" where
  "match_frac s =
     (case s of
        c # cs \<Rightarrow>
          if c = CHR ''.'' \<and> takeWhile isdigit cs \<noteq> []
          then (c # takeWhile isdigit cs, dropWhile isdigit cs) else ([], s)
      | [] \<Rightarrow> ([], s))"

definition match_exp :: "string \<Rightarrow> string \<times> string" where
  "match_exp s =
     (case s of
        c # cs \<Rightarrow>
          if c = CHR ''e'' \<or> c = CHR ''E'' then
            (let (sign, ds) =
               (case cs of
                  d # ds' \<Rightarrow> if d = CHR ''-'' \<or> d = CHR ''+'' then ([d], ds') else ([], cs)
                | [] \<Rightarrow> ([], cs))
             in if takeWhile isdigit ds \<noteq> []
                then (c # sign @ takeWhile isdigit ds, dropWhile isdigit ds) else ([], s))
          else ([], s)
      | [] \<Rightarrow> ([], s))"

definition match_integer :: "string \<Rightarrow> (string \<times> string) option" where
  "match_integer s =
     (let (sign, ds) = (case s of c # cs \<Rightarrow> if c = CHR ''-'' then ([c], cs) else ([], s) | [] \<Rightarrow> ([], s))
      in case ds of
           [] \<Rightarrow> None
         | d # ds' \<Rightarrow>
             if d = CHR ''0'' then Some (sign @ [d], ds')
             else if isdigit d then Some (sign @ d # takeWhile isdigit ds', dropWhile isdigit ds')
             else None)"

definition int_of_text :: "string \<Rightarrow> int" where
  "int_of_text s =
     (case s of
        c # cs \<Rightarrow> if c = CHR ''-'' then - int (nat_of_digits cs) else int (nat_of_digits s)
      | [] \<Rightarrow> 0)"

definition match_number :: "string \<Rightarrow> (json \<times> string) option" where
  "match_number s =
     (case match_integer s of
        None \<Rightarrow> None
      | Some (integer, r) \<Rightarrow>
          (let (frac, r1) = match_frac r; (ex, r2) = match_exp r1
           in if frac \<noteq> [] \<or> ex \<noteq> [] then Some (JFloat (integer @ frac @ ex), r2)
              else Some (JInt (int_of_text integer), r2)))"

datatype 'a scan = Scanned 'a string | Invalid | OutOfFuel

text \<open>
  The scanner (\<^verbatim>\<open>scan_once\<close>, \<^verbatim>\<open>JSONArray\<close>, \<^verbatim>\<open>JSONObject\<close>). Python passes the text
  and an index; the model passes the text from that index on. The recursion is bounded
  by fuel, one unit a call; \<^verbatim>\<open>json_loads\<close> below gives enough of it.
  \<^term>\<open>Invalid\<close> is a \<^verbatim>\<open>JSONDecodeError\<close>.
\<close>

fun scan_once :: "nat \<Rightarrow> string \<Rightarrow> json scan"
  and JSONArray :: "nat \<Rightarrow> json list \<Rightarrow> string \<Rightarrow> json scan"
  and JSONObject :: "nat \<Rightarrow> (string \<times> json) list \<Rightarrow> string \<Rightarrow> json scan"
where
  \<open>scan_once 0 s = OutOfFuel\<close>
| \<open>scan_once (Suc n) [] = Invalid\<close>
| \<open>scan_once (Suc n) (c # cs) =
     (if c = CHR ''"'' then
        (case scanstring cs of None \<Rightarrow> Invalid | Some (str, r) \<Rightarrow> Scanned (JStr str) r)
      else if c = CHR ''{'' then
        (case skip_ws cs of
           [] \<Rightarrow> Invalid
         | d # ds \<Rightarrow>
             if d = CHR ''}'' then Scanned (JObj []) ds
             else if d = CHR ''"'' then JSONObject n [] ds
             else Invalid)
      else if c = CHR ''['' then
        (case skip_ws cs of
           [] \<Rightarrow> Invalid
         | d # ds \<Rightarrow>
             if d = CHR '']'' then Scanned (JArr []) ds else JSONArray n [] (d # ds))
      else if startswith (c # cs) ''null'' then Scanned JNull (drop 4 (c # cs))
      else if startswith (c # cs) ''true'' then Scanned (JBool True) (drop 4 (c # cs))
      else if startswith (c # cs) ''false'' then Scanned (JBool False) (drop 5 (c # cs))
      else
        (case match_number (c # cs) of
           Some (num, r) \<Rightarrow> Scanned num r
         | None \<Rightarrow>
             if startswith (c # cs) ''NaN'' then Scanned (JFloat ''NaN'') (drop 3 (c # cs))
             else if startswith (c # cs) ''Infinity'' then
               Scanned (JFloat ''Infinity'') (drop 8 (c # cs))
             else if startswith (c # cs) ''-Infinity'' then
               Scanned (JFloat ''-Infinity'') (drop 9 (c # cs))
             else Invalid))\<close>
| \<open>JSONArray 0 vs s = OutOfFuel\<close>
| \<open>JSONArray (Suc n) vs s =
     (case scan_once n s of
        Scanned v r \<Rightarrow>
          (case skip_ws r of
             [] \<Rightarrow> Invalid
           | d # ds \<Rightarrow>
               if d = CHR '']'' then Scanned (JArr (vs @ [v])) ds
               else if d = CHR '','' then JSONArray n (vs @ [v]) (skip_ws ds)
               else Invalid)
      | Invalid \<Rightarrow> Invalid
      | OutOfFuel \<Rightarrow> OutOfFuel)\<close>
| \<open>JSONObject 0 pairs s = OutOfFuel\<close>
| \<open>JSONObject (Suc n) pairs s =
     (case scanstring s of
        None \<Rightarrow> Invalid
      | Some (key, r) \<Rightarrow>
          (case skip_ws r of
             [] \<Rightarrow> Invalid
           | d # ds \<Rightarrow>
               if d \<noteq> CHR '':'' then Invalid
               else
                 (case scan_once n (skip_ws ds) of
                    Scanned v r2 \<Rightarrow>
                      (case skip_ws r2 of
                         [] \<Rightarrow> Invalid
                       | e # es \<Rightarrow>
                           if e = CHR ''}'' then Scanned (JObj (dict (pairs @ [(key, v)]))) es
                           else if e = CHR '','' then
                             (case skip_ws es of
                                [] \<Rightarrow> Invalid
                              | q # qs \<Rightarrow>
                                  if q = CHR ''"'' then JSONObject n (pairs @ [(key, v)]) qs
                                  else Invalid)
                           else Invalid)
                  | Invalid \<Rightarrow> Invalid
                  | OutOfFuel \<Rightarrow> OutOfFuel)))\<close>

text \<open>
  \<^verbatim>\<open>json.loads(s)\<close>: the value, or \<^term>\<open>None\<close> where Python raises
  \<^verbatim>\<open>JSONDecodeError\<close> (also on text left over after the value).
\<close>

definition json_loads :: "string \<Rightarrow> json option" where
  "json_loads s =
     (case scan_once (2 * length s + 2) (skip_ws s) of
        Scanned v r \<Rightarrow> if skip_ws r = [] then Some v else None
      | Invalid \<Rightarrow> None
      | OutOfFuel \<Rightarrow> None)"

section \<open>The structured-output extractor (\<^verbatim>\<open>utils.py\<close>)\<close>

text \<open>
  The two bracket-matching loops of \<^verbatim>\<open>extract_json_from_response\<close> are the same loop
  over \<^verbatim>\<open>[\<close>/\<^verbatim>\<open>]\<close> and over \<^verbatim>\<open>{\<close>/\<^verbatim>\<open>}\<close>: \<^term>\<open>i\<close> is the index of the character
  read, \<^term>\<open>start\<close> is \<^verbatim>\<open>array_start\<close> (\<^verbatim>\<open>-1\<close>: none) and \<^term>\<open>cnt\<close> is
  \<^verbatim>\<open>bracket_count\<close>. The bare \<^verbatim>\<open>except\<close> resets both and goes on.
\<close>

fun bracket_scan :: "char \<Rightarrow> char \<Rightarrow> string \<Rightarrow> nat \<Rightarrow> int \<Rightarrow> int \<Rightarrow> string \<Rightarrow> string option" where
  "bracket_scan opn cls text i start cnt [] = None"
| "bracket_scan opn cls text i start cnt (c # cs) =
     (if c = opn then
        bracket_scan opn cls text (i + 1) (if start = -1 then int i else start) (cnt + 1) cs
      else if c = cls then
        (if cnt - 1 = 0 \<and> start \<noteq> -1 then
           (let json_str = slice text (nat start) (i + 1) in
            case json_loads json_str of
              Some v \<Rightarrow> Some json_str
            | None \<Rightarrow> bracket_scan opn cls text (i + 1) (-1) 0 cs)
         else bracket_scan opn cls text (i + 1) start (cnt - 1) cs)
      else bracket_scan opn cls text (i + 1) start cnt cs)"

definition array_scan :: "string \<Rightarrow> string option" where
  "array_scan text = bracket_scan (CHR ''['') (CHR '']'') text 0 (-1) 0 text"

definition object_scan :: "string \<Rightarrow> string option" where
  "object_scan text = bracket_scan (CHR ''{'') (CHR ''}'') text 0 (-1) 0 text"

text \<open>
  \<^verbatim>\<open>re.search(r'\[.*?\]', text, re.DOTALL)\<close> and its twin for braces: the leftmost
  opening character that has a closing one after it, up to the first such.
\<close>

definition search_lazy :: "char \<Rightarrow> char \<Rightarrow> string \<Rightarrow> string option" where
  "search_lazy opn cls text =
     (case dropWhile (\<lambda>c. c \<noteq> opn) text of
        [] \<Rightarrow> None
      | c # rest \<Rightarrow>
          (case dropWhile (\<lambda>c. c \<noteq> cls) rest of
             [] \<Rightarrow> None
           | d # rest' \<Rightarrow> Some (c # takeWhile (\<lambda>c. c \<noteq> cls) rest @ [d])))"

text \<open>
  \<^verbatim>\<open>re.search(r'\[\s*\{.*?\}\s*\]', text, re.DOTALL)\<close>. \<^term>\<open>match_close\<close> reads after
  the \<^verbatim>\<open>{\<close>: the length of the shortest \<^verbatim>\<open>.*?\}\s*\]\<close>. \<^term>\<open>match_array_of_objects\<close>
  tries that at one \<^verbatim>\<open>[\<close>, \<^term>\<open>search_array_of_objects\<close> at each from the left.
\<close>

fun match_close :: "string \<Rightarrow> nat option" where
  "match_close [] = None"
| "match_close (c # cs) =
     (if c = CHR ''}'' \<and> startswith (dropWhile isspace cs) '']''
      then Some (Suc (length (takeWhile isspace cs)) + 1)
      else map_option Suc (match_close cs))"

definition match_array_of_objects :: "string \<Rightarrow> string option" where
  "match_array_of_objects s =
     (case s of
        [] \<Rightarrow> None
      | c # cs \<Rightarrow>
          if c \<noteq> CHR ''['' then None
          else
            (case dropWhile isspace cs of
               [] \<Rightarrow> None
             | d # ds \<Rightarrow>
                 if d \<noteq> CHR ''{'' then None
                 else
                   (case match_close ds of
                      None \<Rightarrow> None
                    | Some n \<Rightarrow> Some (take (1 + length (takeWhile isspace cs) + 1 + n) s))))"

fun search_array_of_objects :: "string \<Rightarrow> string option" where
  "search_array_of_objects [] = None"
| "search_array_of_objects (c # cs) =
     (case match_array_of_objects (c # cs) of
        Some m \<Rightarrow> Some m
      | None \<Rightarrow> search_array_of_objects cs)"

text \<open>The fallback loop: the first pattern whose first match parses.\<close>

fun regex_fallback :: "string option list \<Rightarrow> string option" where
  "regex_fallback [] = None"
| "regex_fallback (None # ms) = regex_fallback ms"
| "regex_fallback (Some json_str # ms) =
     (case json_loads json_str of Some v \<Rightarrow> Some json_str | None \<Rightarrow> regex_fallback ms)"

definition extract_json_from_response :: "string \<Rightarrow> string option" where
  "extract_json_from_response response_text =
     (let text = strip response_text in
      case array_scan text of
        Some json_str \<Rightarrow> Some json_str
      | None \<Rightarrow>
          (case object_scan text of
             Some json_str \<Rightarrow> Some json_str
           | None \<Rightarrow>
               regex_fallback
                 [search_array_of_objects text,
                  search_lazy (CHR ''['') (CHR '']'') text,
                  search_lazy (CHR ''{'') (CHR ''}'') text]))"

text \<open>
  The depth the bracket-matching loop has reached after reading \<^term>\<open>s\<close> from a reset:
  every opening character counts up and every closing one down, wherever it stands.
\<close>

definition depth :: "char \<Rightarrow> char \<Rightarrow> string \<Rightarrow> int" where
  "depth opn cls s = int (count_list s opn) - int (count_list s cls)"

section \<open>The decision normaliser (\<^verbatim>\<open>agent.py\<close>)\<close>

text \<open>
  \<^verbatim>\<open>str(parsed_json)\<close>: Python's \<^verbatim>\<open>repr\<close> of the parsed value. The printing of a
  \<^verbatim>\<open>float\<close> is not part of the model and is taken as the argument \<^term>\<open>fr\<close>.
\<close>

definition hex_digit :: "nat \<Rightarrow> char" where
  "hex_digit n = (if n < 10 then char_of (48 + n) else char_of (87 + n))"

fun digits :: "nat \<Rightarrow> string" where
  "digits n = (if n < 10 then [char_of (48 + n)] else digits (n div 10) @ [char_of (48 + n mod 10)])"

declare digits.simps [simp del]

definition repr_int :: "int \<Rightarrow> string" where
  "repr_int i = (if i < 0 then CHR ''-'' # digits (nat (- i)) else digits (nat i))"

definition repr_char :: "char \<Rightarrow> char \<Rightarrow> string" where
  "repr_char q c =
     (if c = q \<or> c = BACKSLASH then [BACKSLASH, c]
      else if c = CHR 0x09 then [BACKSLASH, CHR ''t'']
      else if c = CHR 0x0A then [BACKSLASH, CHR ''n'']
      else if c = CHR 0x0D then [BACKSLASH, CHR ''r'']
      else if (of_char c :: nat) < 32 \<or> (of_char c :: nat) = 127 then
        [BACKSLASH, CHR ''x'', hex_digit (of_char c div 16), hex_digit (of_char c mod 16)]
      else [c])"

definition repr_str :: "string \<Rightarrow> string" where
  "repr_str s =
     (let q = (if CHR 0x27 \<in> set s \<and> CHR 0x22 \<notin> set s then CHR 0x22 else CHR 0x27)
      in q # concat (map (repr_char q) s) @ [q])"

fun py_repr :: "(string \<Rightarrow> string) \<Rightarrow> json \<Rightarrow> string" where
  "py_repr fr JNull = ''None''"
| "py_repr fr (JBool b) = (if b then ''True'' else ''False'')"
| "py_repr fr (JInt i) = repr_int i"
| "py_repr fr (JFloat x) = fr x"
| "py_repr fr (JStr s) = repr_str s"
| "py_repr fr (JArr xs) = ''['' @ join '', '' (map (py_repr fr) xs) @ '']''"
| "py_repr fr (JObj kvs) =
     ''{'' @ join '', '' (map (\<lambda>(k, v). repr_str k @ '': '' @ py_repr fr v) kvs) @ ''}''"

type_synonym pydict = "(string \<times> json) list"

text \<open>\<^verbatim>\<open>d.get(key, default)\<close>.\<close>

definition dict_get :: "pydict \<Rightarrow> string \<Rightarrow> json \<Rightarrow> json" where
  "dict_get d k dflt = (case map_of d k of Some v \<Rightarrow> v | None \<Rightarrow> dflt)"

definition ask :: "string \<Rightarrow> pydict" where
  "ask notes = [(''action'', JStr ''ASK''), (''intent_clear'', JBool False), (''notes'', JStr notes)]"


text \<open>The loop over \<^verbatim>\<open>parsed_json\<close> that stops at the first dictionary.\<close>

fun first_dict :: "json list \<Rightarrow> pydict option" where
  "first_dict [] = None"
| "first_dict (JObj d # xs) = Some d"
| "first_dict (x # xs) = first_dict xs"

text \<open>\<^verbatim>\<open>any(keyword in flat for keyword in keywords)\<close>.\<close>

definition any_in :: "string list \<Rightarrow> string \<Rightarrow> bool" where
  "any_in keywords flat = list_ex (contains flat) keywords"

text \<open>
  The body of \<^verbatim>\<open>try: parsed_json = json.loads(action_json) ...\<close> in
  \<^verbatim>\<open>parse_action_from_response\<close>, from the parsed value on: \<^term>\<open>action_dict\<close> is the
  fallback the function starts with.
\<close>

definition normalize_parsed :: "(string \<Rightarrow> string) \<Rightarrow> pydict \<Rightarrow> json \<Rightarrow> pydict" where
  "normalize_parsed fr action_dict parsed_json =
     (case parsed_json of
        JArr items \<Rightarrow>
          if items = [] then action_dict
          else
            (case first_dict items of
               Some d \<Rightarrow> d
             | None \<Rightarrow>
                 (let flat = lower (py_repr fr parsed_json) in
                  if any_in [''allergy'', ''diet'', ''preference''] flat then ask ''clarify_diet_allergy''
                  else if any_in [''drink'', ''beverage''] flat then ask ''clarify_drink''
                  else if any_in [''side'', ''accompaniment''] flat then ask ''clarify_side''
                  else ask ''general_clarification''))
      | JObj d \<Rightarrow> d
      | _ \<Rightarrow> action_dict)"

text \<open>The reply text: what is left of the response once the JSON is cut out.\<close>

definition lstrip :: "string \<Rightarrow> string" where
  "lstrip s = dropWhile isspace s"

definition rstrip :: "string \<Rightarrow> string" where
  "rstrip s = rev (dropWhile isspace (rev s))"

definition endswith :: "string \<Rightarrow> string \<Rightarrow> bool" where
  "endswith s p = startswith (rev s) (rev p)"

text \<open>
  \<^verbatim>\<open>re.sub(pattern, '', s)\<close> for a pattern that matches no empty text: \<^term>\<open>m\<close> tries
  the pattern at the head of a text and gives what follows the match.
\<close>

function re_sub :: "(string \<Rightarrow> string option) \<Rightarrow> string \<Rightarrow> string" where
  "re_sub m [] = []"
| "re_sub m (c # cs) =
     (case m (c # cs) of
        Some r \<Rightarrow> if length r \<le> length cs then re_sub m r else c # re_sub m cs
      | None \<Rightarrow> c # re_sub m cs)"
  by pat_completeness auto
termination
  by (relation "measure (length \<circ> snd)") auto

definition not_brace :: "char \<Rightarrow> bool" where
  "not_brace c \<longleftrightarrow> c \<noteq> CHR ''{'' \<and> c \<noteq> CHR ''}''"

text \<open>\<^verbatim>\<open>\{[^{}]*"action"[^{}]*\}\<close>\<close>

definition match_action_object :: "string \<Rightarrow> string option" where
  \<open>match_action_object s =
     (case s of
        [] \<Rightarrow> None
      | c # cs \<Rightarrow>
          if c = CHR ''{'' \<and> startswith (dropWhile not_brace cs) ''}'' \<and>
             contains (takeWhile not_brace cs) ''"action"''
          then Some (drop 1 (dropWhile not_brace cs)) else None)\<close>

text \<open>\<^verbatim>\<open>\{"action"[^}]*\<close>\<close>

definition match_action_fragment :: "string \<Rightarrow> string option" where
  \<open>match_action_fragment s =
     (if startswith s ''{"action"''
      then Some (dropWhile (\<lambda>d. d \<noteq> CHR ''}'') (drop 9 s)) else None)\<close>

text \<open>\<^verbatim>\<open>,"[^"]+"\s*:\s*\<close>, the head of the last two patterns up to the colon.\<close>

definition match_key :: "string \<Rightarrow> string option" where
  \<open>match_key s =
     (case s of
        c # q # ks \<Rightarrow>
          if c \<noteq> CHR '','' \<or> q \<noteq> CHR ''"'' \<or> takeWhile (\<lambda>d. d \<noteq> CHR ''"'') ks = [] then None
          else
            (case dropWhile (\<lambda>d. d \<noteq> CHR ''"'') ks of
               [] \<Rightarrow> None
             | q' # r \<Rightarrow>
                 (case dropWhile isspace r of
                    [] \<Rightarrow> None
                  | col # r' \<Rightarrow> if col = CHR '':'' then Some r' else None))
      | _ \<Rightarrow> None)\<close>

text \<open>\<^verbatim>\<open>,"[^"]+"\s*:\s*"[^"]*"[^}]*\<close>\<close>

definition match_string_pair :: "string \<Rightarrow> string option" where
  \<open>match_string_pair s =
     (case match_key s of
        None \<Rightarrow> None
      | Some r \<Rightarrow>
          (case dropWhile isspace r of
             [] \<Rightarrow> None
           | q # v \<Rightarrow>
               if q \<noteq> CHR ''"'' then None
               else
                 (case dropWhile (\<lambda>d. d \<noteq> CHR ''"'') v of
                    [] \<Rightarrow> None
                  | q' # r' \<Rightarrow> Some (dropWhile (\<lambda>d. d \<noteq> CHR ''}'') r'))))\<close>

text \<open>\<^verbatim>\<open>,"[^"]+"\s*:\s*[^,}]*\<close>\<close>

definition match_any_pair :: "string \<Rightarrow> string option" where
  "match_any_pair s =
     (case match_key s of
        None \<Rightarrow> None
      | Some r \<Rightarrow> Some (dropWhile (\<lambda>d. d \<noteq> CHR '','' \<and> d \<noteq> CHR ''}'') r))"

definition BACKTICKS :: string where
  "BACKTICKS = [CHR 0x60, CHR 0x60, CHR 0x60]"

lemma length_strip_le: "length (strip s) \<le> length s"
  unfolding strip_def
  by (metis length_dropWhile_le length_rev order_trans)

lemma startswith_nonempty: "startswith s (p # ps) \<Longrightarrow> s \<noteq> []"
  by (cases s) auto

lemma strip_drop_less:
  "startswith s (p # ps) \<Longrightarrow> length (strip (drop (Suc n) s)) < length s"
  using length_strip_le [of "drop (Suc n) s"] startswith_nonempty [of s p ps]
  by (cases s) auto

lemma lstrip_less:
  "startswith s [c] \<Longrightarrow> isspace c \<Longrightarrow> length (lstrip s) < length s"
  using length_dropWhile_le [of isspace "tl s"]
  by (cases s) (auto simp: lstrip_def)

function strip_prefixes :: "string \<Rightarrow> string" where
  "strip_prefixes s =
     (if startswith s BACKTICKS then strip_prefixes (strip (drop 3 s))
      else if startswith s [CHR 0x0A] then strip_prefixes (strip (drop 1 s))
      else if startswith s '','' then strip_prefixes (strip (drop 1 s))
      else if startswith s '' '' \<or> startswith s [CHR 0x09] then strip_prefixes (lstrip s)
      else s)"
  by pat_completeness auto
termination
proof (relation "measure length", goal_cases)
  case 1
  show ?case by simp
next
  case (2 s)
  then show ?case
    using strip_drop_less [of s "CHR 0x60" "[CHR 0x60, CHR 0x60]" 2]
    by (simp add: BACKTICKS_def numeral_3_eq_3)
next
  case (3 s)
  then show ?case using strip_drop_less [of s "CHR 0x0A" "[]" 0] by simp
next
  case (4 s)
  then show ?case using strip_drop_less [of s "CHR '',''" "[]" 0] by simp
next
  case (5 s)
  then show ?case
    using lstrip_less [of s "CHR '' ''"] lstrip_less [of s "CHR 0x09"] by (auto simp: isspace_def)
qed

declare strip_prefixes.simps [simp del]

lemma length_rstrip_le: "length (rstrip s) \<le> length s"
  unfolding rstrip_def by (metis length_dropWhile_le length_rev)

lemma startswith_Nil: "startswith [] q = (q = [])"
  by (cases q) auto

lemma endswith_nonempty: "endswith s (p # ps) \<Longrightarrow> s \<noteq> []"
  by (auto simp: endswith_def startswith_Nil)

lemma strip_take_less:
  "endswith s (p # ps) \<Longrightarrow> length (strip (take (length s - Suc n) s)) < length s"
  using length_strip_le [of "take (length s - Suc n) s"] endswith_nonempty [of s p ps]
  by (cases s) auto

lemma rstrip_less:
  "endswith s [c] \<Longrightarrow> isspace c \<Longrightarrow> length (rstrip s) < length s"
  using length_dropWhile_le [of isspace "tl (rev s)"]
  by (cases "rev s") (auto simp: rstrip_def endswith_def)

function strip_suffixes :: "string \<Rightarrow> string" where
  "strip_suffixes s =
     (if endswith s BACKTICKS then strip_suffixes (strip (take (length s - 3) s))
      else if endswith s [CHR 0x0A] then strip_suffixes (strip (take (length s - 1) s))
      else if endswith s ''}'' then strip_suffixes (strip (take (length s - 1) s))
      else if endswith s '' '' \<or> endswith s [CHR 0x09] then strip_suffixes (rstrip s)
      else s)"
  by pat_completeness auto
termination
proof (relation "measure length", goal_cases)
  case 1
  show ?case by simp
next
  case (2 s)
  then show ?case
    using strip_take_less [of s "CHR 0x60" "[CHR 0x60, CHR 0x60]" 2]
    by (simp add: BACKTICKS_def numeral_3_eq_3)
next
  case (3 s)
  then show ?case using strip_take_less [of s "CHR 0x0A" "[]" 0] by simp
next
  case (4 s)
  then show ?case using strip_take_less [of s "CHR ''}''" "[]" 0] by simp
next
  case (5 s)
  then show ?case
    using rstrip_less [of s "CHR '' ''"] rstrip_less [of s "CHR 0x09"] by (auto simp: isspace_def)
qed

declare strip_suffixes.simps [simp del]

definition FALLBACK_REPLY :: string where
  "FALLBACK_REPLY = ''Nas'' @ [CHR 0xC4, CHR 0xB1] @ ''l yard'' @ [CHR 0xC4, CHR 0xB1] @
     ''mc'' @ [CHR 0xC4, CHR 0xB1] @ '' olabilirim?''"

definition clean_reply_text :: "string \<Rightarrow> string" where
  "clean_reply_text response_text =
     (let reply_text = re_sub match_action_object response_text;
          reply_text = re_sub match_action_fragment reply_text;
          reply_text = re_sub match_string_pair reply_text;
          reply_text = re_sub match_any_pair reply_text;
          reply_text = strip reply_text;
          reply_text = strip_prefixes reply_text;
          reply_text = strip_suffixes reply_text
      in if strip reply_text = [] then FALLBACK_REPLY else reply_text)"

text \<open>\<^verbatim>\<open>parse_action_from_response\<close>: the action dictionary and the reply text.\<close>

definition parse_action_from_response :: "(string \<Rightarrow> string) \<Rightarrow> string \<Rightarrow> pydict \<times> string" where
  "parse_action_from_response fr response_text =
     (let action_json = extract_json_from_response response_text;
          action_dict =
            (case action_json of
               None \<Rightarrow> ask ''fallback''
             | Some js \<Rightarrow>
                 if js = [] then ask ''fallback''
                 else
                   (case json_loads js of
                      None \<Rightarrow> ask ''fallback''
                    | Some parsed_json \<Rightarrow> normalize_parsed fr (ask ''fallback'') parsed_json))
      in (action_dict, clean_reply_text response_text))"


section \<open>Data model (\<^verbatim>\<open>schemas.py\<close>)\<close>

datatype level = Low | Medium | High

record MenuItem =
  name :: string
  price :: "string option"
  ingredients :: "string list"
  item_keywords :: "string list"
  allergens :: "string list"
  category :: "string option"
  spice_level :: "level option"

record RestaurantProfile =
  restaurant_name :: "string option"
  display_name :: "string option"
  cuisine_tags :: "string list"
  price_level :: "level option"
  service_style :: "string list"
  diet_coverage :: "string list"
  popular_categories :: "string list"
  summary_text :: string

record MenuJSON =
  restaurant :: RestaurantProfile
  items :: "MenuItem list"

record OrderItem =
  item_name :: string
  item_notes :: "string option"

record Order =
  order :: "OrderItem list"
  persona :: string
  order_restaurant :: string
  confidence :: real
  menu_json :: string
  timestamp :: nat

record ChatTurn =
  role :: string
  content :: string

text \<open>
  The constraints dictionary: a key that is missing and a key whose value is \<^verbatim>\<open>None\<close>
  are both \<^term>\<open>None\<close> (the code reads every key with \<^verbatim>\<open>get\<close> and tests the value
  for truth before it uses it).
\<close>

record Constraints =
  avoid_allergens :: "string list option"
  diet :: "string list option"
  price_preference :: "string option"

section \<open>Runtime and environment\<close>

text \<open>
  Library functions the program calls and the model does not compute: SHA-256 as a
  hexadecimal digest, the printing of a float, and \<^verbatim>\<open>numpy.argsort\<close> (whose order
  among equal keys is not fixed by its default algorithm).
\<close>

record runtime =
  sha256_hex :: "string \<Rightarrow> string"
  float_repr :: "string \<Rightarrow> string"
  argsort :: "real list \<Rightarrow> nat list"

text \<open>What \<^verbatim>\<open>argsort\<close> promises: the indices of the array, each once, in ascending order
  of value.\<close>

definition argsort_spec :: "(real list \<Rightarrow> nat list) \<Rightarrow> bool" where
  "argsort_spec f \<longleftrightarrow>
     (\<forall>xs. distinct (f xs) \<and> set (f xs) = {..<length xs} \<and>
           sorted (map (\<lambda>i. xs ! i) (f xs)))"

text \<open>A stable argsort: equal values keep their index order.\<close>

definition stable_argsort :: "real list \<Rightarrow> nat list" where
  "stable_argsort xs = sort_key (\<lambda>i. xs ! i) [0..<length xs]"

datatype py_error = ServiceError | ValueError | IndexError

text \<open>A file of the cache directory: an array that \<^verbatim>\<open>np.load\<close> returns, or one it fails on.\<close>

datatype npy = Array "real list list" | Corrupt

datatype prompt =
    KEYWORD_EXTRACTION_SYSTEM
  | UNIFIED_AGENT_SYSTEM string string string string string string

text \<open>
  The world outside the program. The embedding and chat services answer the \<^term>\<open>k\<close>-th
  call on an input with \<^term>\<open>embed w k\<close> and \<^term>\<open>chat w k\<close> (\<^term>\<open>None\<close>: the call
  raises); the calls made are logged. A system prompt is kept as the arguments its
  template is filled with (service style, cuisine tags, price level, summary, persona
  context, candidates JSON).
\<close>

record world =
  files :: "string \<Rightarrow> npy option"
  writable :: bool
  embed :: "nat \<Rightarrow> string list \<Rightarrow> real list list option"
  embed_calls :: "string list list"
  chat :: "nat \<Rightarrow> prompt \<Rightarrow> string \<Rightarrow> string option"
  chat_calls :: "(prompt \<times> string) list"
  rng :: "nat \<Rightarrow> real"
  now :: nat

section \<open>The embedding cache (\<^verbatim>\<open>match.py\<close>)\<close>

text \<open>\<^verbatim>\<open>x or dflt\<close> on an optional string.\<close>

definition or_else :: "string option \<Rightarrow> string \<Rightarrow> string" where
  "or_else x dflt = (case x of None \<Rightarrow> dflt | Some s \<Rightarrow> if s = [] then dflt else s)"

definition truthy :: "string option \<Rightarrow> bool" where
  "truthy x = (case x of None \<Rightarrow> False | Some s \<Rightarrow> s \<noteq> [])"

definition build_item_text :: "MenuItem \<Rightarrow> string" where
  "build_item_text item =
     lower (join '' ''
       ([name item] @ ingredients item @ item_keywords item @
        (if truthy (category item) then [the (category item)] else [])))"

text \<open>
  \<^verbatim>\<open>json.dumps\<close> of a string with \<^verbatim>\<open>ensure_ascii=True\<close>. A character outside ASCII is
  read from its UTF-8 bytes and written as \<^verbatim>\<open>\uXXXX\<close> (a surrogate pair beyond the
  basic plane).
\<close>

definition u_escape :: "nat \<Rightarrow> string" where
  "u_escape u =
     [BACKSLASH, CHR ''u'', hex_digit (u div 4096 mod 16), hex_digit (u div 256 mod 16),
      hex_digit (u div 16 mod 16), hex_digit (u mod 16)]"

definition cont :: "string \<Rightarrow> nat \<Rightarrow> nat" where
  "cont s i = (of_char (s ! i) :: nat) mod 64"

function encode_ascii :: "string \<Rightarrow> string" where
  "encode_ascii [] = []"
| "encode_ascii (c # cs) =
     (let n = (of_char c :: nat) in
      if c = CHR 0x22 then [BACKSLASH, c] @ encode_ascii cs
      else if c = BACKSLASH then [BACKSLASH, c] @ encode_ascii cs
      else if c = CHR 0x0A then [BACKSLASH, CHR ''n''] @ encode_ascii cs
      else if c = CHR 0x0D then [BACKSLASH, CHR ''r''] @ encode_ascii cs
      else if c = CHR 0x09 then [BACKSLASH, CHR ''t''] @ encode_ascii cs
      else if c = CHR 0x08 then [BACKSLASH, CHR ''b''] @ encode_ascii cs
      else if c = CHR 0x0C then [BACKSLASH, CHR ''f''] @ encode_ascii cs
      else if n < 32 \<or> n = 127 then u_escape n @ encode_ascii cs
      else if n < 128 then c # encode_ascii cs
      else if 192 \<le> n \<and> n < 224 \<and> 1 \<le> length cs then
        u_escape ((n - 192) * 64 + cont cs 0) @ encode_ascii (drop 1 cs)
      else if 224 \<le> n \<and> n < 240 \<and> 2 \<le> length cs then
        u_escape ((n - 224) * 4096 + cont cs 0 * 64 + cont cs 1) @ encode_ascii (drop 2 cs)
      else if 240 \<le> n \<and> 3 \<le> length cs then
        (let u = (n - 240) * 262144 + cont cs 0 * 4096 + cont cs 1 * 64 + cont cs 2 - 65536
         in u_escape (55296 + u div 1024) @ u_escape (56320 + u mod 1024) @
            encode_ascii (drop 3 cs))
      else u_escape n @ encode_ascii cs)"
  by pat_completeness auto
termination
  by (relation "measure length") auto

definition dumps_str :: "string \<Rightarrow> string" where
  "dumps_str s = [CHR 0x22] @ encode_ascii s @ [CHR 0x22]"

definition dumps_opt :: "string option \<Rightarrow> string" where
  "dumps_opt x = (case x of None \<Rightarrow> ''null'' | Some s \<Rightarrow> dumps_str s)"

definition dumps_list :: "string list \<Rightarrow> string" where
  "dumps_list xs = ''['' @ join '', '' (map dumps_str xs) @ '']''"

definition level_str :: "level \<Rightarrow> string" where
  "level_str l = (case l of Low \<Rightarrow> ''low'' | Medium \<Rightarrow> ''medium'' | High \<Rightarrow> ''high'')"

text \<open>\<^verbatim>\<open>json.dumps(item.model_dump(), sort_keys=True)\<close>: the keys of one item, sorted.\<close>

definition dumps_item :: "MenuItem \<Rightarrow> string" where
  \<open>dumps_item item =
     ''{"allergens": '' @ dumps_list (allergens item) @
     '', "category": '' @ dumps_opt (category item) @
     '', "ingredients": '' @ dumps_list (ingredients item) @
     '', "keywords": '' @ dumps_list (item_keywords item) @
     '', "name": '' @ dumps_str (name item) @
     '', "price": '' @ dumps_opt (price item) @
     '', "spice_level": '' @ dumps_opt (map_option level_str (spice_level item)) @ ''}''\<close>

text \<open>\<^verbatim>\<open>content_str\<close>: the items in the order of the menu.\<close>

definition content_str :: "MenuItem list \<Rightarrow> string" where
  "content_str its = ''['' @ join '', '' (map dumps_item its) @ '']''"

definition isalnum :: "char \<Rightarrow> bool" where
  "isalnum c \<longleftrightarrow>
     (let n = (of_char c :: nat) in
      (48 \<le> n \<and> n \<le> 57) \<or> (65 \<le> n \<and> n \<le> 90) \<or> (97 \<le> n \<and> n \<le> 122))"

text \<open>\<^verbatim>\<open>os.path.join(base_dir, file)\<close> for a file name that does not start with a slash.\<close>

definition path_join :: "string \<Rightarrow> string \<Rightarrow> string" where
  "path_join base_dir file =
     (if base_dir = [] then file
      else if last base_dir = CHR ''/'' then base_dir @ file
      else base_dir @ ''/'' @ file)"

definition get_embedding_cache_path :: "runtime \<Rightarrow> MenuJSON \<Rightarrow> string \<Rightarrow> string" where
  "get_embedding_cache_path rt menu base_dir =
     (let content_hash = take 16 (sha256_hex rt (content_str (items menu)));
          restaurant_name = or_else (restaurant_name (restaurant menu)) ''unknown'';
          safe_name = lower (filter (\<lambda>c. isalnum c \<or> c = CHR ''-'' \<or> c = CHR ''_'') restaurant_name)
      in path_join base_dir (safe_name @ ''_'' @ content_hash @ ''.emb.npy''))"

definition rectangular :: "real list list \<Rightarrow> bool" where
  "rectangular rows = (case rows of [] \<Rightarrow> True | r # rs \<Rightarrow> list_all (\<lambda>x. length x = length r) rs)"

text \<open>
  \<^verbatim>\<open>embed_texts\<close>: one call to the embedding service; \<^verbatim>\<open>np.array\<close> refuses rows of
  different lengths.
\<close>

definition embed_texts :: "world \<Rightarrow> string list \<Rightarrow> (py_error + real list list) \<times> world" where
  "embed_texts w texts =
     (let w' = w\<lparr>embed_calls := embed_calls w @ [texts]\<rparr> in
      case embed w (length (embed_calls w)) texts of
        None \<Rightarrow> (Inl ServiceError, w')
      | Some rows \<Rightarrow> (if rectangular rows then Inr rows else Inl ValueError, w'))"

definition compute_embeddings ::
  "world \<Rightarrow> MenuJSON \<Rightarrow> string \<Rightarrow> (py_error + real list list) \<times> world" where
  "compute_embeddings w menu cache_path =
     (case embed_texts w (map build_item_text (items menu)) of
        (Inl e, w') \<Rightarrow> (Inl e, w')
      | (Inr embeddings, w') \<Rightarrow>
          (Inr embeddings,
           if writable w' then w'\<lparr>files := (files w')(cache_path := Some (Array embeddings))\<rparr>
           else w'))"

definition load_or_compute_embeddings ::
  "runtime \<Rightarrow> world \<Rightarrow> MenuJSON \<Rightarrow> bool \<Rightarrow> (py_error + real list list) \<times> world" where
  "load_or_compute_embeddings rt w menu force_recompute =
     (let cache_path = get_embedding_cache_path rt menu ''opt/menu_content'' in
      if \<not> force_recompute \<and> files w cache_path \<noteq> None then
        (case files w cache_path of
           Some (Array m) \<Rightarrow> (Inr m, w)
         | _ \<Rightarrow> compute_embeddings w menu cache_path)
      else compute_embeddings w menu cache_path)"

section \<open>The candidate ranker (\<^verbatim>\<open>match.py\<close>, \<^verbatim>\<open>utils.py\<close>)\<close>

text \<open>
  Scores are real numbers: rounding, infinities and NaN of the 64-bit floats are not
  modelled (a zero vector, whose cosine is NaN in numpy, has cosine 0 here).
\<close>

definition l2norm :: "real list \<Rightarrow> real" where
  "l2norm v = sqrt (sum_list (map (\<lambda>x. x * x) v))"

definition dot :: "real list \<Rightarrow> real list \<Rightarrow> real" where
  "dot a b = sum_list (map2 (*) a b)"

definition cosine_similarity :: "real list \<Rightarrow> real list list \<Rightarrow> py_error + real list" where
  "cosine_similarity a b =
     (if list_all (\<lambda>row. length row = length a) b then
        Inr (map (\<lambda>row. dot (map (\<lambda>x. x / l2norm row) row) (map (\<lambda>x. x / l2norm a) a)) b)
      else Inl ValueError)"

text \<open>
  \<^verbatim>\<open>price_bucket\<close>. The first match of \<^verbatim>\<open>\d+(?:\.\d+)?\<close> is read as the decimal
  number it writes.
\<close>

definition first_number :: "string \<Rightarrow> (string \<times> string) option" where
  "first_number s =
     (case dropWhile (\<lambda>c. \<not> isdigit c) s of
        [] \<Rightarrow> None
      | d # ds \<Rightarrow>
          (let ip = takeWhile isdigit (d # ds); r = dropWhile isdigit (d # ds) in
           case r of
             [] \<Rightarrow> Some (ip, [])
           | p # fs \<Rightarrow>
               if p = CHR ''.'' \<and> takeWhile isdigit fs \<noteq> [] then Some (ip, takeWhile isdigit fs)
               else Some (ip, [])))"

definition price_value :: "string \<times> string \<Rightarrow> real" where
  "price_value n = real (nat_of_digits (fst n)) + real (nat_of_digits (snd n)) / 10 ^ length (snd n)"

definition price_bucket :: "string option \<Rightarrow> string option" where
  "price_bucket price_str =
     (if \<not> truthy price_str then None
      else
        (case first_number (the price_str) of
           None \<Rightarrow> None
         | Some n \<Rightarrow>
             if price_value n < 20 then Some ''low''
             else if price_value n < 50 then Some ''medium''
             else Some ''high''))"

definition meat_terms :: "string list" where
  "meat_terms = [''chicken'', ''beef'', ''lamb'', ''fish'', ''seafood'', ''turkey'', ''pork'']"

definition non_vegan :: "string list" where
  "non_vegan =
     [''chicken'', ''beef'', ''lamb'', ''fish'', ''seafood'', ''cheese'', ''milk'', ''cream'', ''butter'']"

definition item_text :: "MenuItem \<Rightarrow> string" where
  "item_text item =
     join '' '' (map lower (item_keywords item) @ map lower (ingredients item) @ [lower (name item)])"

text \<open>The loop over the diet requirements: \<^term>\<open>False\<close> is \<^verbatim>\<open>mask[i] = False; break\<close>.\<close>

fun diet_passes :: "string \<Rightarrow> string list \<Rightarrow> bool" where
  "diet_passes txt [] = True"
| "diet_passes txt (d # ds) =
     (if lower d = ''vegetarian'' then
        (if list_ex (contains txt) meat_terms then False else diet_passes txt ds)
      else if lower d = ''vegan'' then
        (if list_ex (contains txt) non_vegan then False else diet_passes txt ds)
      else diet_passes txt ds)"

definition or_empty :: "string list option \<Rightarrow> string list" where
  "or_empty x = (case x of None \<Rightarrow> [] | Some xs \<Rightarrow> xs)"

definition allergen_hit :: "string list \<Rightarrow> MenuItem \<Rightarrow> bool" where
  "allergen_hit avoid item =
     list_ex (\<lambda>allergen. lower allergen \<in> set (map lower (allergens item))) avoid"

text \<open>One round of the loop of \<^verbatim>\<open>apply_constraints_filter\<close>: the mask entry of an item.\<close>

definition item_passes :: "Constraints \<Rightarrow> MenuItem \<Rightarrow> bool" where
  "item_passes c item =
     (if or_empty (avoid_allergens c) \<noteq> [] \<and> allergen_hit (or_empty (avoid_allergens c)) item
      then False
      else if or_empty (diet c) \<noteq> [] then diet_passes (item_text item) (or_empty (diet c))
      else True)"

definition apply_constraints_filter :: "MenuItem list \<Rightarrow> Constraints \<Rightarrow> bool list" where
  "apply_constraints_filter its c = map (item_passes c) its"

text \<open>
  The price loop: \<^verbatim>\<open>similarities[i] *= 0.7\<close> for an item of the high bucket; an index
  past the end of the array raises.
\<close>

fun damp_prices :: "MenuItem list \<Rightarrow> nat \<Rightarrow> real list \<Rightarrow> py_error + real list" where
  "damp_prices [] i sims = Inr sims"
| "damp_prices (item # rest) i sims =
     (if truthy (price item) \<and> price_bucket (price item) = Some ''high'' then
        (if i < length sims then damp_prices rest (i + 1) (sims[i := sims ! i * 0.7])
         else Inl IndexError)
      else damp_prices rest (i + 1) sims)"

text \<open>\<^verbatim>\<open>np.where(mask, xs, y)\<close> on one-dimensional arrays, with numpy's broadcasting.\<close>

definition np_where :: "bool list \<Rightarrow> real list \<Rightarrow> real \<Rightarrow> py_error + real list" where
  "np_where msk xs y =
     (if length msk = length xs then Inr (map2 (\<lambda>b x. if b then x else y) msk xs)
      else if length xs = 1 then Inr (map (\<lambda>b. if b then xs ! 0 else y) msk)
      else if length msk = 1 then Inr (map (\<lambda>x. if msk ! 0 then x else y) xs)
      else Inl ValueError)"

text \<open>\<^verbatim>\<open>xs[:k]\<close> for a Python integer \<^term>\<open>k\<close>.\<close>

definition py_take :: "int \<Rightarrow> 'a list \<Rightarrow> 'a list" where
  "py_take k xs = (if 0 \<le> k then take (nat k) xs else take (length xs - nat (- k)) xs)"

text \<open>\<^verbatim>\<open>np.random.rand(n)\<close>: \<^term>\<open>n\<close> numbers from the half-open unit interval.\<close>

definition np_random_rand :: "world \<Rightarrow> nat \<Rightarrow> real list" where
  "np_random_rand w n = map (\<lambda>i. frac (rng w i)) [0..<n]"

text \<open>
  The last third of \<^verbatim>\<open>rank_candidates\<close>, from the similarities on: the final scores
  and the valid indices.
\<close>

definition rank_indices ::
  "runtime \<Rightarrow> MenuItem list \<Rightarrow> Constraints \<Rightarrow> int \<Rightarrow> real list \<Rightarrow> py_error + real list \<times> nat list" where
  "rank_indices rt its c top_k similarities =
     (let constraint_mask = apply_constraints_filter its c in
      case (if price_preference c = Some ''low'' then damp_prices its 0 similarities
            else Inr similarities) of
        Inl e \<Rightarrow> Inl e
      | Inr sims \<Rightarrow>
          (case np_where constraint_mask sims (- 1) of
             Inl e \<Rightarrow> Inl e
           | Inr final_scores \<Rightarrow>
               (let top_indices = py_take top_k (rev (argsort rt final_scores));
                    valid_indices = filter (\<lambda>i. 0 \<le> final_scores ! i) top_indices
                in Inr (final_scores, valid_indices))))"

definition rank_scored ::
  "runtime \<Rightarrow> MenuItem list \<Rightarrow> Constraints \<Rightarrow> int \<Rightarrow> real list \<Rightarrow> py_error + MenuItem list" where
  "rank_scored rt its c top_k similarities =
     (case rank_indices rt its c top_k similarities of
        Inl e \<Rightarrow> Inl e
      | Inr (final_scores, valid_indices) \<Rightarrow>
          if list_all (\<lambda>i. i < length its) valid_indices then Inr (map (\<lambda>i. its ! i) valid_indices)
          else Inl IndexError)"

definition query_text_of :: "string list \<Rightarrow> Constraints \<Rightarrow> string" where
  "query_text_of query_keywords c =
     join '' ''
       (query_keywords @ or_empty (diet c) @
        (if truthy (price_preference c) then [''price-'' @ the (price_preference c)] else []))"

definition rank_candidates ::
  "runtime \<Rightarrow> world \<Rightarrow> MenuJSON \<Rightarrow> string list \<Rightarrow> Constraints \<Rightarrow> int \<Rightarrow>
     (py_error + MenuItem list) \<times> world" where
  "rank_candidates rt w menu query_keywords c top_k =
     (if items menu = [] then (Inr [], w)
      else
        (case load_or_compute_embeddings rt w menu False of
           (Inl e, w1) \<Rightarrow> (Inl e, w1)
         | (Inr item_embeddings, w1) \<Rightarrow>
             (let query_text = query_text_of query_keywords c in
              if strip query_text \<noteq> [] then
                (case embed_texts w1 [query_text] of
                   (Inl e, w2) \<Rightarrow> (Inl e, w2)
                 | (Inr q, w2) \<Rightarrow>
                     (case q of
                        [] \<Rightarrow> (Inl IndexError, w2)
                      | query_embedding # _ \<Rightarrow>
                          (case cosine_similarity query_embedding item_embeddings of
                             Inl e \<Rightarrow> (Inl e, w2)
                           | Inr similarities \<Rightarrow>
                               (rank_scored rt (items menu) c top_k similarities, w2))))
              else
                (rank_scored rt (items menu) c top_k
                   (np_random_rand w1 (length (items menu))), w1))))"

text \<open>
  The similarities \<^verbatim>\<open>rank_candidates\<close> computes for a menu that is not empty (from the
  cache and the embedding service, or from the random baseline when the query is empty),
  and the final scores it combines them into: the adjusted score of the item at each
  index.
\<close>

definition query_similarities ::
  "runtime \<Rightarrow> world \<Rightarrow> MenuJSON \<Rightarrow> string list \<Rightarrow> Constraints \<Rightarrow>
     (py_error + real list) \<times> world" where
  "query_similarities rt w menu query_keywords c =
     (case load_or_compute_embeddings rt w menu False of
        (Inl e, w1) \<Rightarrow> (Inl e, w1)
      | (Inr item_embeddings, w1) \<Rightarrow>
          (let query_text = query_text_of query_keywords c in
           if strip query_text \<noteq> [] then
             (case embed_texts w1 [query_text] of
                (Inl e, w2) \<Rightarrow> (Inl e, w2)
              | (Inr q, w2) \<Rightarrow>
                  (case q of
                     [] \<Rightarrow> (Inl IndexError, w2)
                   | query_embedding # _ \<Rightarrow>
                       (cosine_similarity query_embedding item_embeddings, w2)))
           else (Inr (np_random_rand w1 (length (items menu))), w1)))"

definition adjusted_scores ::
  "runtime \<Rightarrow> world \<Rightarrow> MenuJSON \<Rightarrow> string list \<Rightarrow> Constraints \<Rightarrow> py_error + real list" where
  "adjusted_scores rt w menu query_keywords c =
     (case fst (query_similarities rt w menu query_keywords c) of
        Inl e \<Rightarrow> Inl e
      | Inr similarities \<Rightarrow>
          (case (if price_preference c = Some ''low''
                 then damp_prices (items menu) 0 similarities
                 else Inr similarities) of
             Inl e \<Rightarrow> Inl e
           | Inr sims \<Rightarrow> np_where (apply_constraints_filter (items menu) c) sims (- 1)))"

section \<open>What the specification asks of the hard filter\<close>

text \<open>
  An allergen violation, in the words of the specification: the allergen set of the item
  intersects the avoid list of the caller, compared without regard to case.
\<close>

definition allergen_violation :: "Constraints \<Rightarrow> MenuItem \<Rightarrow> bool" where
  "allergen_violation c item =
     (set (map lower (or_empty (avoid_allergens c))) \<inter> set (map lower (allergens item)) \<noteq> {})"

text \<open>
  The exclusion vocabulary of a diet tag, in the words of the specification: the tag
  \<^verbatim>\<open>vegetarian\<close> excludes items that mention chicken, beef, lamb, fish, seafood, turkey
  or pork; the tag \<^verbatim>\<open>vegan\<close> additionally excludes the dairy terms. The specification
  does not list the dairy terms; they are taken to be the four of the code.
\<close>

definition spec_vegetarian_vocabulary :: "string list" where
  "spec_vegetarian_vocabulary =
     [''chicken'', ''beef'', ''lamb'', ''fish'', ''seafood'', ''turkey'', ''pork'']"

definition spec_dairy_terms :: "string list" where
  "spec_dairy_terms = [''cheese'', ''milk'', ''cream'', ''butter'']"

definition spec_exclusion_vocabulary :: "string \<Rightarrow> string list" where
  "spec_exclusion_vocabulary tag =
     (if tag = ''vegetarian'' then spec_vegetarian_vocabulary
      else if tag = ''vegan'' then spec_vegetarian_vocabulary @ spec_dairy_terms
      else [])"

text \<open>
  A diet violation: the combined keyword, ingredient and name text of the item holds a
  term of the exclusion vocabulary of a requested diet tag.
\<close>

definition diet_violation :: "Constraints \<Rightarrow> MenuItem \<Rightarrow> bool" where
  "diet_violation c item =
     list_ex (\<lambda>tag. list_ex (contains (item_text item)) (spec_exclusion_vocabulary tag))
       (or_empty (diet c))"
section \<open>Example inputs\<close>

text \<open>
  A runtime with a stable argsort, a world with an empty cache that cannot be written and
  a chat service that is down, and plain menu items.
\<close>

definition example_runtime :: runtime where
  "example_runtime = \<lparr>sha256_hex = (\<lambda>s. s), float_repr = (\<lambda>s. s), argsort = stable_argsort\<rparr>"

definition quiet_world :: "(nat \<Rightarrow> string list \<Rightarrow> real list list option) \<Rightarrow> (nat \<Rightarrow> real) \<Rightarrow> world" where
  "quiet_world e r =
     \<lparr>files = (\<lambda>p. None), writable = False, embed = e, embed_calls = [],
      chat = (\<lambda>k p u. None), chat_calls = [], rng = r, now = 0\<rparr>"

definition plain_item :: "string \<Rightarrow> string list \<Rightarrow> MenuItem" where
  "plain_item n als =
     \<lparr>name = n, price = None, ingredients = [], item_keywords = [], allergens = als,
      category = None, spice_level = None\<rparr>"

definition empty_profile :: RestaurantProfile where
  "empty_profile =
     \<lparr>restaurant_name = None, display_name = None, cuisine_tags = [], price_level = None,
      service_style = [], diet_coverage = [], popular_categories = [], summary_text = []\<rparr>"

definition no_constraints :: Constraints where
  "no_constraints = \<lparr>avoid_allergens = None, diet = None, price_preference = None\<rparr>"

text \<open>
  Two menus of one restaurant with the same two items in the two orders, and a runtime
  whose digest function is SHA-256 tabulated on the serialisations of these two item
  lists.
\<close>

definition menu_AB :: MenuJSON where
  "menu_AB = \<lparr>restaurant = empty_profile, items = [plain_item ''A'' [], plain_item ''B'' []]\<rparr>"

definition menu_BA :: MenuJSON where
  "menu_BA = \<lparr>restaurant = empty_profile, items = [plain_item ''B'' [], plain_item ''A'' []]\<rparr>"

definition sha256_table :: "string \<Rightarrow> string" where
  "sha256_table s =
     (if s = content_str (items menu_AB)
      then ''a0cc65639d226b7e2f92dafd516dbdfa3ab8e1c0e01cf5f734fada9deecdf5ff''
      else if s = content_str (items menu_BA)
      then ''811aabaf60d1f1d53b2d512cbb4687936d02ec0baf87ddfbd3439d2dc7ff2334''
      else [])"

definition digest_runtime :: runtime where
  "digest_runtime = \<lparr>sha256_hex = sha256_table, float_repr = (\<lambda>s. s), argsort = stable_argsort\<rparr>"

text \<open>
  A world in which the embedding service answers every text with the row \<^term>\<open>[1]\<close> and
  the cache holds \<^term>\<open>entry\<close> at the cache path of \<^term>\<open>menu_AB\<close>.
\<close>

definition cached_world :: "npy option \<Rightarrow> world" where
  "cached_world entry =
     \<lparr>files = (\<lambda>p. if p = get_embedding_cache_path digest_runtime menu_AB ''opt/menu_content''
                     then entry else None),
      writable = True, embed = (\<lambda>k ts. Some (map (\<lambda>t. [1]) ts)), embed_calls = [],
      chat = (\<lambda>k p u. None), chat_calls = [], rng = (\<lambda>k. 0), now = 0\<rparr>"

text \<open>
  A menu of four items, and a random generator that draws one half for the items
  \<^verbatim>\<open>A\<close> and \<^verbatim>\<open>C\<close>, three quarters for \<^verbatim>\<open>B\<close> and one quarter for \<^verbatim>\<open>D\<close>; the
  embedding service answers every text with the row \<^term>\<open>[1]\<close>.
\<close>

definition menu_ABCD :: MenuJSON where
  "menu_ABCD =
     \<lparr>restaurant = empty_profile,
      items = [plain_item ''A'' [], plain_item ''B'' [], plain_item ''C'' [], plain_item ''D'' []]\<rparr>"

definition tie_world :: world where
  "tie_world =
     quiet_world (\<lambda>k texts. Some (map (\<lambda>t. [1]) texts))
       (\<lambda>i. if i = 1 then 3 / 4 else if i = 3 then 1 / 4 else 1 / 2)"

text \<open>A request for vegan items, and a menu whose only item is a pork chop.\<close>

definition vegan_request :: Constraints where
  "vegan_request = \<lparr>avoid_allergens = None, diet = Some [''vegan''], price_preference = None\<rparr>"

definition pork_menu :: MenuJSON where
  "pork_menu = \<lparr>restaurant = empty_profile, items = [plain_item ''pork chop'' []]\<rparr>"

section \<open>The agent (\<^verbatim>\<open>agent.py\<close>)\<close>

text \<open>
  The agent object: the restaurant profile, the menu, the persona identifier and the
  system prompt of the persona that \<^verbatim>\<open>get_persona\<close> returned when the agent was built.
\<close>

record agent =
  agent_restaurant :: RestaurantProfile
  agent_menu :: MenuJSON
  persona_id :: string
  persona_context :: string

text \<open>
  \<^verbatim>\<open>client.chat.completions.create(...)\<close> followed by
  \<^verbatim>\<open>response.choices[0].message.content\<close>: \<^term>\<open>None\<close> when the call or the access raises.
\<close>

definition chat_completion :: "world \<Rightarrow> prompt \<Rightarrow> string \<Rightarrow> string option \<times> world" where
  "chat_completion w sys usr =
     (chat w (length (chat_calls w)) sys usr, w\<lparr>chat_calls := chat_calls w @ [(sys, usr)]\<rparr>)"

definition strs :: "json list \<Rightarrow> string list" where
  "strs vs = concat (map (\<lambda>v. case v of JStr s \<Rightarrow> [s] | _ \<Rightarrow> []) vs)"

definition extract_user_keywords :: "world \<Rightarrow> string \<Rightarrow> string list \<times> world" where
  "extract_user_keywords w message =
     (case chat_completion w KEYWORD_EXTRACTION_SYSTEM message of
        (None, w') \<Rightarrow> ([], w')
      | (Some response_content, w') \<Rightarrow>
          (let response_text = strip response_content in
           case extract_json_from_response response_text of
             None \<Rightarrow> ([], w')
           | Some json_text \<Rightarrow>
               if json_text = [] then ([], w')
               else
                 (case json_loads json_text of
                    Some (JArr keywords) \<Rightarrow> (strs keywords, w')
                  | _ \<Rightarrow> ([], w'))))"

text \<open>\<^verbatim>\<open>lookup_candidates\<close>: the ranker with \<^verbatim>\<open>top_k=8\<close>; any exception gives no candidate.\<close>

definition lookup_candidates ::
  "runtime \<Rightarrow> world \<Rightarrow> agent \<Rightarrow> string list \<Rightarrow> Constraints \<Rightarrow> MenuItem list \<times> world" where
  "lookup_candidates rt w ag keywords constraints =
     (case rank_candidates rt w (agent_menu ag) keywords constraints 8 of
        (Inl e, w') \<Rightarrow> ([], w')
      | (Inr candidates, w') \<Rightarrow> (candidates, w'))"

definition intent_keywords :: "string list" where
  "intent_keywords =
     [''ac'' @ [CHR 0xC4, CHR 0xB1] @ ''kt'' @ [CHR 0xC4, CHR 0xB1] @ ''m'', ''a'' @ [CHR 0xC3, CHR 0xA7], ''yemek'', ''yiyecek'',
      ''lezzet'', ''tat'', ''men'' @ [CHR 0xC3, CHR 0xBC], ''et'',
      ''tavuk'', ''bal'' @ [CHR 0xC4, CHR 0xB1] @ ''k'', ''sebze'', ''salata'',
      [CHR 0xC3, CHR 0xA7] @ ''orba'', ''tatl'' @ [CHR 0xC4, CHR 0xB1], ''pizza'', ''burger'',
      ''pasta'', ''d'' @ [CHR 0xC3, CHR 0xB6] @ ''ner'', ''kebab'', ''pilav'',
      ''kahvalt'' @ [CHR 0xC4, CHR 0xB1], [CHR 0xC3, CHR 0xB6, CHR 0xC4, CHR 0x9F] @ ''le'', ''ak'' @ [CHR 0xC5, CHR 0x9F] @ ''am'', ''at'' @ [CHR 0xC4, CHR 0xB1, CHR 0xC5, CHR 0x9F] @ ''t'' @ [CHR 0xC4, CHR 0xB1] @ ''rmal'' @ [CHR 0xC4, CHR 0xB1] @ ''k'',
      ''vegetarian'', ''vegan'', ''gluten'', ''spicy'',
      ''mild'', ''sweet'', ''salty'', ''crispy'',
      ''grilled'', ''fried'', ''soup'', ''salad'']"

definition delegation_phrases :: "string list" where
  "delegation_phrases =
     [''sen se'' @ [CHR 0xC3, CHR 0xA7], ''sana kalm'' @ [CHR 0xC4, CHR 0xB1, CHR 0xC5, CHR 0x9F], [CHR 0xC3, CHR 0xB6] @ ''ner'', ''tavsiye'',
      ''istedi'' @ [CHR 0xC4, CHR 0x9F] @ ''in'', ''up to you'', ''you choose'', ''recommend'',
      ''suggest'']"

text \<open>\<^verbatim>\<open>xs[-n:]\<close> for a positive \<^term>\<open>n\<close>.\<close>

definition py_last :: "nat \<Rightarrow> 'a list \<Rightarrow> 'a list" where
  "py_last n xs = drop (length xs - n) xs"

definition check_food_intent :: "ChatTurn list \<Rightarrow> string \<Rightarrow> bool" where
  "check_food_intent history user_message =
     (let all_text = foldl (\<lambda>acc turn. acc @ '' '' @ lower (content turn))
                       (lower user_message) (py_last 3 history)
      in if list_ex (contains all_text) delegation_phrases then True
         else if list_ex (contains all_text) intent_keywords then True
         else False)"

text \<open>
  \<^verbatim>\<open>json.dumps(candidate_data, ensure_ascii=False, indent=2)\<close> for the list of candidate
  dictionaries: only the quote, the backslash and the control characters are escaped.
\<close>

definition escape_char :: "char \<Rightarrow> string" where
  "escape_char c =
     (let n = (of_char c :: nat) in
      if c = CHR 0x22 then [BACKSLASH, c]
      else if c = BACKSLASH then [BACKSLASH, c]
      else if c = CHR 0x0A then [BACKSLASH, CHR ''n'']
      else if c = CHR 0x0D then [BACKSLASH, CHR ''r'']
      else if c = CHR 0x09 then [BACKSLASH, CHR ''t'']
      else if c = CHR 0x08 then [BACKSLASH, CHR ''b'']
      else if c = CHR 0x0C then [BACKSLASH, CHR ''f'']
      else if n < 32 then u_escape n
      else [c])"

definition dumps_str_raw :: "string \<Rightarrow> string" where
  "dumps_str_raw s = [CHR 0x22] @ concat (map escape_char s) @ [CHR 0x22]"

definition dumps_opt_raw :: "string option \<Rightarrow> string" where
  "dumps_opt_raw x = (case x of None \<Rightarrow> ''null'' | Some s \<Rightarrow> dumps_str_raw s)"

text \<open>A line break followed by \<^term>\<open>n\<close> spaces.\<close>

definition newline_indent :: "nat \<Rightarrow> string" where
  "newline_indent n = CHR 0x0A # replicate n (CHR '' '')"

definition dumps_indented :: "nat \<Rightarrow> string list \<Rightarrow> string" where
  "dumps_indented n elems =
     (if elems = [] then ''[]''
      else ''['' @ newline_indent (n + 2) @ join ('','' @ newline_indent (n + 2)) elems @
           newline_indent n @ '']'')"

definition dumps_candidate :: "MenuItem \<Rightarrow> string" where
  \<open>dumps_candidate item =
     ''{'' @ newline_indent 4 @
     ''"name": '' @ dumps_str_raw (name item) @ '','' @ newline_indent 4 @
     ''"price": '' @ dumps_opt_raw (price item) @ '','' @ newline_indent 4 @
     ''"keywords": '' @ dumps_indented 4 (map dumps_str_raw (take 5 (item_keywords item))) @
       '','' @ newline_indent 4 @
     ''"allergens": '' @ dumps_indented 4 (map dumps_str_raw (allergens item)) @
       '','' @ newline_indent 4 @
     ''"ingredients": '' @ dumps_indented 4 (map dumps_str_raw (take 3 (ingredients item))) @
     newline_indent 2 @ ''}''\<close>

definition build_system_prompt :: "agent \<Rightarrow> MenuItem list option \<Rightarrow> prompt" where
  "build_system_prompt ag candidates =
     (let r = agent_restaurant ag;
          cuisine_str = (if cuisine_tags r \<noteq> [] then join '', '' (cuisine_tags r) else ''diverse'');
          service_str = (if service_style r \<noteq> [] then join '', '' (service_style r) else ''casual'');
          candidates_json =
            (case candidates of
               None \<Rightarrow> []
             | Some cs \<Rightarrow>
                 if cs = [] then [] else dumps_indented 0 (map dumps_candidate (take 3 cs)))
      in UNIFIED_AGENT_SYSTEM service_str cuisine_str
           (case price_level r of None \<Rightarrow> ''varies'' | Some l \<Rightarrow> level_str l)
           (summary_text r) (persona_context ag) candidates_json)"

text \<open>The candidates JSON a system prompt was filled with.\<close>

definition candidates_json_of :: "prompt \<Rightarrow> string" where
  "candidates_json_of p =
     (case p of KEYWORD_EXTRACTION_SYSTEM \<Rightarrow> [] | UNIFIED_AGENT_SYSTEM s c l t pc cj \<Rightarrow> cj)"

definition finalize_order :: "agent \<Rightarrow> world \<Rightarrow> string list \<Rightarrow> Order" where
  "finalize_order ag w selected_items =
     (let r = agent_restaurant ag in
      \<lparr>order = map (\<lambda>n. \<lparr>item_name = strip n, item_notes = None\<rparr>) selected_items,
       persona = persona_id ag,
       order_restaurant =
         (if truthy (display_name r) then the (display_name r)
          else if truthy (restaurant_name r) then the (restaurant_name r)
          else ''Unknown''),
       confidence = 0.8,
       menu_json =
         (if truthy (restaurant_name r)
          then ''opt/menu_content/'' @ the (restaurant_name r) @ ''.json''
          else ''unknown.json''),
       timestamp = now w\<rparr>)"

definition APOLOGY :: string where
  "APOLOGY =
     [CHR 0xC3, CHR 0x96] @ ''z'' @ [CHR 0xC3, CHR 0xBC] @ ''r dilerim, bir sorun olu'' @ [CHR 0xC5, CHR 0x9F] @ ''tu. L'' @ [CHR 0xC3, CHR 0xBC] @ ''tfen tekrar deneyin.''"

definition FINALIZE_REPLY :: string where
  "FINALIZE_REPLY =
     [CHR 0xE2, CHR 0x9C, CHR 0x85] @ '' Harika! Sipari'' @ [CHR 0xC5, CHR 0x9F] @ ''iniz haz'' @ [CHR 0xC4, CHR 0xB1] @ ''rlan'' @ [CHR 0xC4, CHR 0xB1] @ ''yor. A'' @ [CHR 0xC5, CHR 0x9F] @ ''a'' @ [CHR 0xC4, CHR 0x9F, CHR 0xC4, CHR 0xB1] @ ''dan sipari'' @ [CHR 0xC5, CHR 0x9F] @ '' detaylar'' @ [CHR 0xC4, CHR 0xB1] @ ''n'' @ [CHR 0xC4, CHR 0xB1] @ ''z'' @ [CHR 0xC4, CHR 0xB1] @ '' indirebilirsiniz.''"

text \<open>What \<^verbatim>\<open>respond\<close> returns when an exception reaches its outer handler.\<close>

definition error_response :: "string \<times> json \<times> MenuItem list \<times> Order option" where
  "error_response = (APOLOGY, JStr ''ASK'', [], None)"

definition conversation_context :: "ChatTurn list \<Rightarrow> string \<Rightarrow> string" where
  "conversation_context history user_message =
     join [CHR 0x0A]
       (map (\<lambda>turn. role turn @ '': '' @ content turn) (py_last 5 history) @
        [''user: '' @ user_message])"

text \<open>
  \<^verbatim>\<open>respond\<close>: the reply text, the action, the candidates and the order, if any. The action
  is whatever JSON value the decision holds under \<^verbatim>\<open>"action"\<close>.
\<close>

definition respond ::
  "runtime \<Rightarrow> world \<Rightarrow> agent \<Rightarrow> ChatTurn list \<Rightarrow> string \<Rightarrow>
     (string \<times> json \<times> MenuItem list \<times> Order option) \<times> world" where
  "respond rt w ag history user_message =
     (let intent_clear = check_food_intent history user_message;
          context = conversation_context history user_message;
          system_prompt = build_system_prompt ag None
      in case chat_completion w system_prompt context of
           (None, w1) \<Rightarrow> (error_response, w1)
         | (Some response_content, w1) \<Rightarrow>
             (let response_text = strip response_content;
                  (action_dict, reply_text) =
                     parse_action_from_response (float_repr rt) response_text;
                  action = dict_get action_dict ''action'' (JStr ''ASK'')
              in if action \<in> set [JStr ''LOOKUP'', JStr ''RECOMMEND'', JStr ''REFINE''] \<and>
                    intent_clear then
                   (case extract_user_keywords w1 user_message of
                      (keywords, w2) \<Rightarrow>
                        (case lookup_candidates rt w2 ag keywords
                                \<lparr>avoid_allergens = Some [], diet = Some [],
                                 price_preference = None\<rparr> of
                           (candidates, w3) \<Rightarrow>
                             if candidates \<noteq> [] then
                               (case chat_completion w3 (build_system_prompt ag (Some candidates))
                                       (context @ [CHR 0x0A, CHR 0x0A] @
                                        ''Provide specific recommendations from the menu candidates.'') of
                                  (None, w4) \<Rightarrow> (error_response, w4)
                                | (Some grounded_content, w4) \<Rightarrow>
                                    ((snd (parse_action_from_response (float_repr rt)
                                             (strip grounded_content)),
                                      action, candidates, None), w4))
                             else ((reply_text, action, candidates, None), w3)))
                 else if action = JStr ''FINALIZE'' then
                   ((FINALIZE_REPLY, action, [],
                     Some (finalize_order ag w1 [''Example Item''])), w1)
                 else ((reply_text, action, [], None), w1)))"

text \<open>An agent of a restaurant with an empty profile and the menu \<^term>\<open>menu_AB\<close>.\<close>

definition example_agent :: agent where
  "example_agent =
     \<lparr>agent_restaurant = empty_profile, agent_menu = menu_AB, persona_id = ''ayla'',
      persona_context = ''persona''\<rparr>"

text \<open>
  A world in which the chat service answers every call with \<^term>\<open>answer\<close> and the
  embedding service answers every text with the row \<^term>\<open>[1]\<close>.
\<close>

definition chatty_world :: "string \<Rightarrow> world" where
  "chatty_world answer =
     \<lparr>files = (\<lambda>p. None), writable = True, embed = (\<lambda>k ts. Some (map (\<lambda>t. [1]) ts)),
      embed_calls = [], chat = (\<lambda>k p u. Some answer), chat_calls = [], rng = (\<lambda>k. 0),
      now = 0\<rparr>"

text \<open>
  Two answers of the chat service: a decision to recommend and a decision to finalise,
  each followed by a reply for the user.
\<close>

definition recommend_answer :: string where
  \<open>recommend_answer =
     ''{"action":"RECOMMEND","intent_clear":true,"notes":"showing options"} Try the soup.''\<close>

definition finalize_answer :: string where
  \<open>finalize_answer =
     ''{"action":"FINALIZE","intent_clear":true,"notes":"order complete"} Thank you!''\<close>

(*PROPERTIES*)

section \<open>Properties of the extractor\<close>

lemma depth_snoc:
  "depth opn cls (pre @ [c]) =
     depth opn cls pre + (if c = opn then 1 else 0) - (if c = cls then 1 else 0)"
  by (simp add: depth_def)

text \<open>
  Once the loop has its start at index 0 and stays above depth 0 up to the last
  character, it slices the whole text there.
\<close>

lemma bracket_scan_balanced:
  assumes "opn \<noteq> cls" and "json_loads t \<noteq> None"
  shows "t = pre @ rest \<Longrightarrow> rest \<noteq> [] \<Longrightarrow> depth opn cls pre = cnt \<Longrightarrow> 0 < cnt \<Longrightarrow>
     (\<forall>n. length pre < n \<and> n < length t \<longrightarrow> 0 < depth opn cls (take n t)) \<Longrightarrow>
     depth opn cls t = 0 \<Longrightarrow>
     bracket_scan opn cls t (length pre) 0 cnt rest = Some t"
proof (induction rest arbitrary: pre cnt)
  case Nil
  then show ?case by simp
next
  case (Cons c cs)
  show ?case
  proof (cases "cs = []")
    case True
    with Cons.prems have d: "depth opn cls (pre @ [c]) = 0" by simp
    with Cons.prems(3,4) assms(1) have c: "c = cls" "c \<noteq> opn" "cnt = 1"
      by (auto simp: depth_snoc split: if_splits)
    have "slice t 0 (length pre + 1) = t"
      using Cons.prems(1) True by (simp add: slice_def)
    with c assms(2) show ?thesis by (auto simp: Let_def)
  next
    case False
    let ?pre = "pre @ [c]"
    have t: "t = ?pre @ cs" using Cons.prems(1) by simp
    have "length pre + 1 < length t" using Cons.prems(1) False by simp
    with Cons.prems(5) have pos: "0 < depth opn cls (take (length pre + 1) t)" by simp
    have tk: "take (length pre + 1) t = ?pre" using Cons.prems(1) by simp
    have pos': "0 < depth opn cls ?pre" using pos tk by simp
    have later: "\<forall>n. length ?pre < n \<and> n < length t \<longrightarrow> 0 < depth opn cls (take n t)"
      using Cons.prems(5) by simp
    have ih: "bracket_scan opn cls t (length ?pre) 0 (depth opn cls ?pre) cs = Some t"
      by (rule Cons.IH [OF t False refl pos' later Cons.prems(6)])
    show ?thesis
      using ih pos' Cons.prems(3) assms(1)
      by (auto simp: depth_snoc)
  qed
qed

lemma array_scan_balanced:
  assumes "json_loads (CHR ''['' # rest) \<noteq> None"
    and "\<forall>n. 0 < n \<and> n < length (CHR ''['' # rest) \<longrightarrow>
           0 < depth (CHR ''['') (CHR '']'') (take n (CHR ''['' # rest))"
    and "depth (CHR ''['') (CHR '']'') (CHR ''['' # rest) = 0"
  shows "array_scan (CHR ''['' # rest) = Some (CHR ''['' # rest)"
proof -
  let ?t = "CHR ''['' # rest"
  have ne: "rest \<noteq> []" using assms(3) by (auto simp: depth_def)
  have "bracket_scan (CHR ''['') (CHR '']'') ?t (length [CHR ''['']) 0 1 rest = Some ?t"
    by (rule bracket_scan_balanced [OF _ assms(1)]) (use ne assms(2,3) in \<open>auto simp: depth_def\<close>)
  then show ?thesis by (simp add: array_scan_def)
qed

lemma drop_Cons_nth:
  "c # cs = drop i t \<Longrightarrow> i < length t \<and> t ! i = c \<and> cs = drop (Suc i) t"
  by (metis Cons_nth_drop_Suc drop_all list.distinct(1) list.inject not_le_imp_less)

text \<open>What the loop returns parses and starts with the opening character.\<close>

lemma bracket_scan_found:
  "bracket_scan opn cls t i start cnt rest = Some a \<Longrightarrow>
   rest = drop i t \<Longrightarrow>
   start = -1 \<or> (0 \<le> start \<and> nat start < i \<and> t ! nat start = opn) \<Longrightarrow>
   json_loads a \<noteq> None \<and> a \<noteq> [] \<and> hd a = opn"
proof (induction opn cls t i start cnt rest rule: bracket_scan.induct)
  case (1 opn cls t i start cnt)
  then show ?case by simp
next
  case (2 opn cls t i start cnt c cs)
  from drop_Cons_nth [OF "2.prems"(2)]
  have i: "i < length t" and ci: "t ! i = c" and cs: "cs = drop (i + 1) t" by simp_all
  show ?case
  proof (cases "c = opn")
    case True
    have inv: "(if start = -1 then int i else start) = -1 \<or>
               (0 \<le> (if start = -1 then int i else start) \<and>
                nat (if start = -1 then int i else start) < i + 1 \<and>
                t ! nat (if start = -1 then int i else start) = opn)"
      using "2.prems"(3) ci True by auto
    from "2.prems"(1) True
    have "bracket_scan opn cls t (i + 1) (if start = -1 then int i else start) (cnt + 1) cs = Some a"
      by simp
    from "2.IH"(1) [OF True this cs inv] show ?thesis .
  next
    case False
    show ?thesis
    proof (cases "c = cls")
      case cl: True
      show ?thesis
      proof (cases "cnt - 1 = 0 \<and> start \<noteq> -1")
        case ret: True
        let ?js = "slice t (nat start) (i + 1)"
        from ret "2.prems"(3) have st: "0 \<le> start" "nat start < i" "t ! nat start = opn" by auto
        have ne: "?js \<noteq> []" using st i by (simp add: slice_def)
        have hd: "hd ?js = opn" using st i by (simp add: slice_def hd_drop_conv_nth)
        show ?thesis
        proof (cases "json_loads ?js")
          case None
          with "2.prems"(1) False cl ret
          have "bracket_scan opn cls t (i + 1) (-1) 0 cs = Some a" by (simp add: Let_def)
          from "2.IH"(2) [OF False cl ret refl None this cs] show ?thesis by simp
        next
          case (Some v)
          with "2.prems"(1) False cl ret have "a = ?js" by (simp add: Let_def)
          with Some ne hd show ?thesis by simp
        qed
      next
        case nret: False
        with "2.prems"(1) False cl
        have "bracket_scan opn cls t (i + 1) start (cnt - 1) cs = Some a" by auto
        from "2.IH"(3) [OF False cl nret this cs] "2.prems"(3) show ?thesis by auto
      qed
    next
      case ncl: False
      with "2.prems"(1) False
      have "bracket_scan opn cls t (i + 1) start cnt cs = Some a" by simp
      from "2.IH"(4) [OF False ncl this cs] "2.prems"(3) show ?thesis by auto
    qed
  qed
qed

lemma JSONArray_is_array:
  "JSONArray n vs s = Scanned v r \<Longrightarrow> \<exists>vs'. v = JArr vs'"
proof (induction n arbitrary: vs s)
  case 0
  then show ?case by simp
next
  case (Suc n)
  then show ?case
    by (auto split: scan.splits list.splits if_splits)
qed

lemma scan_once_bracket:
  "scan_once (Suc n) (CHR ''['' # s) =
     (case skip_ws s of
        [] \<Rightarrow> Invalid
      | d # ds \<Rightarrow> if d = CHR '']'' then Scanned (JArr []) ds else JSONArray n [] (d # ds))"
  by simp

lemma json_loads_array:
  assumes "json_loads (CHR ''['' # s) = Some v"
  shows "\<exists>vs. v = JArr vs"
proof -
  define n where "n = 2 * length (CHR ''['' # s) + 1"
  have fuel: "2 * length (CHR ''['' # s) + 2 = Suc n" by (simp add: n_def)
  have "skip_ws (CHR ''['' # s) = CHR ''['' # s" by (simp add: skip_ws_def json_ws_def)
  with assms obtain r where "scan_once (Suc n) (CHR ''['' # s) = Scanned v r"
    unfolding json_loads_def fuel by (auto split: scan.splits if_splits)
  then have "(case skip_ws s of
        [] \<Rightarrow> Invalid
      | d # ds \<Rightarrow> if d = CHR '']'' then Scanned (JArr []) ds else JSONArray n [] (d # ds))
      = Scanned v r"
    by (simp only: scan_once_bracket)
  then show ?thesis
    by (auto simp del: JSONArray.simps scan_once.simps split: list.splits if_splits
        dest: JSONArray_is_array)
qed

lemma array_scan_is_array:
  assumes "array_scan t = Some a"
  shows "\<exists>vs. json_loads a = Some (JArr vs)"
proof -
  from assms have "json_loads a \<noteq> None \<and> a \<noteq> [] \<and> hd a = CHR ''[''"
    unfolding array_scan_def by (rule bracket_scan_found) simp_all
  then obtain s v where "a = CHR ''['' # s" "json_loads a = Some v"
    by (cases a) auto
  with json_loads_array show ?thesis by blast
qed

text \<open>
  Claim C8, as the code has it. The three examples of the specification hold:
  \<^verbatim>\<open>noise {"a":1} trailing\<close> gives \<^verbatim>\<open>{"a":1}\<close>, \<^verbatim>\<open>[1,2,]bad then [1,2]\<close> gives
  \<^verbatim>\<open>[1,2]\<close> and \<^verbatim>\<open>no json here\<close> gives nothing. Arrays come first in this sense:
  whenever the bracket-matching loop for \<^verbatim>\<open>[\<close>/\<^verbatim>\<open>]\<close> finds a span that parses, that span
  is the result and it is a JSON array, whatever objects the text holds. (A valid array
  the loop does not reach has no such priority: see the counterexample below.)
\<close>

theorem extract_examples_and_array_first:
  \<open>extract_json_from_response ''noise {"a":1} trailing'' = Some ''{"a":1}'' \<and>
   extract_json_from_response ''[1,2,]bad then [1,2]'' = Some ''[1,2]'' \<and>
   extract_json_from_response ''no json here'' = None \<and>
   (\<forall>t a. array_scan (strip t) = Some a \<longrightarrow>
      extract_json_from_response t = Some a \<and> (\<exists>vs. json_loads a = Some (JArr vs)))\<close>
proof (intro conjI allI impI)
  show \<open>extract_json_from_response ''noise {"a":1} trailing'' = Some ''{"a":1}''\<close>
    by code_simp
  show \<open>extract_json_from_response ''[1,2,]bad then [1,2]'' = Some ''[1,2]''\<close>
    by code_simp
  show \<open>extract_json_from_response ''no json here'' = None\<close>
    by code_simp
next
  fix t a
  assume "array_scan (strip t) = Some a"
  then show "extract_json_from_response t = Some a"
    by (simp add: extract_json_from_response_def)
next
  fix t a
  assume "array_scan (strip t) = Some a"
  then show "\<exists>vs. json_loads a = Some (JArr vs)"
    by (rule array_scan_is_array)
qed

text \<open>
  The text \<^verbatim>\<open>{"a":[1]}\<close> is a valid object as a whole; the array inside it is what
  the extractor returns.
\<close>

theorem extract_examples_and_array_first_witness:
  \<open>array_scan (strip ''{"a":[1]}'') = Some ''[1]'' \<and>
   json_loads ''{"a":[1]}'' = Some (JObj [(''a'', JArr [JInt 1])]) \<and>
   extract_json_from_response ''{"a":[1]}'' = Some ''[1]'' \<and>
   (\<exists>vs. json_loads ''[1]'' = Some (JArr vs))\<close>
proof -
  have h: \<open>array_scan (strip ''{"a":[1]}'') = Some ''[1]''\<close> by code_simp
  have j: \<open>json_loads ''{"a":[1]}'' = Some (JObj [(''a'', JArr [JInt 1])])\<close> by code_simp
  from extract_examples_and_array_first h j show ?thesis by blast
qed

text \<open>
  Claim C8 as stated fails in its last part, that a valid array anywhere in the text has
  priority over any valid object: in \<^verbatim>\<open>[ [1,2] {"a":1}\<close> the first \<^verbatim>\<open>[\<close> is never
  closed, the loop's depth never returns to zero, and the object is returned although
  the text holds the valid array \<^verbatim>\<open>[1,2]\<close>.
\<close>

theorem extract_array_priority_counterexample:
  \<open>contains ''[ [1,2] {"a":1}'' ''[1,2]'' \<and>
   json_loads ''[1,2]'' = Some (JArr [JInt 1, JInt 2]) \<and>
   extract_json_from_response ''[ [1,2] {"a":1}'' = Some ''{"a":1}''\<close>
  by code_simp

text \<open>
  Claim C4, as the code has it. The loop has no notion of a string literal: a bracket
  inside one counts as any other. A text that is one JSON array is extracted whole when
  the raw depth (brackets inside string literals included) is positive after every
  proper prefix and zero at the end, as in \<^verbatim>\<open>["a[b]c"]\<close>.
\<close>

theorem extract_array_raw_balance:
  assumes "strip t = t"
    and "startswith t ''[''"
    and "json_loads t \<noteq> None"
    and "list_all (\<lambda>n. 0 < depth (CHR ''['') (CHR '']'') (take n t)) [1..<length t]"
    and "depth (CHR ''['') (CHR '']'') t = 0"
  shows "extract_json_from_response t = Some t"
proof -
  from assms(2) obtain rest where t: "t = CHR ''['' # rest" by (cases t) auto
  have "\<forall>n. 0 < n \<and> n < length t \<longrightarrow> 0 < depth (CHR ''['') (CHR '']'') (take n t)"
    using assms(4) by (auto simp: list_all_iff)
  with assms(3,5) have "array_scan t = Some t"
    unfolding t by (intro array_scan_balanced) auto
  with assms(1) show ?thesis by (simp add: extract_json_from_response_def)
qed

theorem extract_array_raw_balance_witness:
  \<open>strip ''["a[b]c"]'' = ''["a[b]c"]'' \<and>
   startswith ''["a[b]c"]'' ''['' \<and>
   json_loads ''["a[b]c"]'' = Some (JArr [JStr ''a[b]c'']) \<and>
   list_all (\<lambda>n. 0 < depth (CHR ''['') (CHR '']'') (take n ''["a[b]c"]'')) [1..<length ''["a[b]c"]''] \<and>
   depth (CHR ''['') (CHR '']'') ''["a[b]c"]'' = 0 \<and>
   extract_json_from_response ''["a[b]c"]'' = Some ''["a[b]c"]''\<close>
proof -
  have h1: \<open>strip ''["a[b]c"]'' = ''["a[b]c"]''\<close> by code_simp
  have h2: \<open>startswith ''["a[b]c"]'' ''[''\<close> by code_simp
  have h3: \<open>json_loads ''["a[b]c"]'' = Some (JArr [JStr ''a[b]c''])\<close> by code_simp
  have h4: \<open>list_all (\<lambda>n. 0 < depth (CHR ''['') (CHR '']'') (take n ''["a[b]c"]''))
             [1..<length ''["a[b]c"]'']\<close> by code_simp
  have h5: \<open>depth (CHR ''['') (CHR '']'') ''["a[b]c"]'' = 0\<close> by code_simp
  from h3 have h3n: \<open>json_loads ''["a[b]c"]'' \<noteq> None\<close> by simp
  from extract_array_raw_balance [OF h1 h2 h3n h4 h5] h1 h2 h3 h4 h5 show ?thesis by simp
qed

text \<open>
  Claim C4 as stated fails: a bracket inside a string literal does change the depth. The
  text \<^verbatim>\<open>["]"]\<close> is one valid JSON array whose only inner bracket stands in a string;
  the loop closes its span at that bracket, the span \<^verbatim>\<open>["]\<close> does not parse, and
  nothing is extracted.
\<close>

theorem extract_string_bracket_counterexample:
  \<open>json_loads ''["]"]'' = Some (JArr [JStr '']'']) \<and>
   depth (CHR ''['') (CHR '']'') (take 3 ''["]"]'') = 0 \<and>
   extract_json_from_response ''["]"]'' = None\<close>
  by code_simp

section \<open>Properties of the decision normaliser\<close>




section \<open>Properties of the candidate ranker\<close>

lemma allergen_violation_fails: "allergen_violation c item \<Longrightarrow> \<not> item_passes c item"
  by (auto simp: allergen_violation_def item_passes_def allergen_hit_def list_ex_iff)

lemma np_where_kept:
  assumes "np_where msk xs y = Inr final" "i < length final" "i < length msk" "final ! i \<noteq> y"
  shows "msk ! i"
proof -
  consider (eq) "length msk = length xs"
    | (one) "length msk \<noteq> length xs" "length xs = 1"
    | (mone) "length msk \<noteq> length xs" "length xs \<noteq> 1" "length msk = 1"
    using assms(1) by (auto simp: np_where_def split: if_splits)
  then show ?thesis
  proof cases
    case eq
    with assms show ?thesis by (auto simp: np_where_def split: if_splits)
  next
    case one
    with assms show ?thesis by (auto simp: np_where_def split: if_splits)
  next
    case mone
    with assms have i0: "i = 0" by simp
    from mone assms(1) have f: "final = map (\<lambda>x. if msk ! 0 then x else y) xs"
      by (simp add: np_where_def)
    with assms(2) i0 have "final ! 0 = (if msk ! 0 then xs ! 0 else y)" by simp
    with assms(4) i0 show ?thesis by (auto split: if_splits)
  qed
qed

lemma py_take_subset: "set (py_take k xs) \<subseteq> set xs"
  by (auto simp: py_take_def dest: in_set_takeD)

lemma rank_indices_valid:
  assumes "argsort_spec (argsort rt)"
    and "rank_indices rt its c top_k sims = Inr (final, valid)"
    and "i \<in> set valid"
  shows "i < length final \<and> 0 \<le> final ! i \<and>
         (\<exists>sims'. np_where (apply_constraints_filter its c) sims' (- 1) = Inr final)"
proof -
  from assms(2) obtain sims' where
    nw: "np_where (apply_constraints_filter its c) sims' (- 1) = Inr final" and
    v: "valid = filter (\<lambda>i. 0 \<le> final ! i) (py_take top_k (rev (argsort rt final)))"
    by (auto simp: rank_indices_def Let_def split: sum.splits if_splits)
  from assms(3) v have "i \<in> set (argsort rt final)" "0 \<le> final ! i"
    using py_take_subset [of top_k "rev (argsort rt final)"] by auto
  moreover from assms(1) have "set (argsort rt final) = {..<length final}"
    by (simp add: argsort_spec_def)
  ultimately show ?thesis using nw by auto
qed

lemma rank_scored_passes:
  assumes "argsort_spec (argsort rt)" and "rank_scored rt its c top_k sims = Inr out"
  shows "list_all (item_passes c) out"
proof -
  from assms(2) obtain final valid where
    ri: "rank_indices rt its c top_k sims = Inr (final, valid)" and
    rng: "list_all (\<lambda>i. i < length its) valid" and
    out: "out = map (\<lambda>i. its ! i) valid"
    by (auto simp: rank_scored_def split: sum.splits prod.splits if_splits)
  have "item_passes c (its ! i)" if "i \<in> set valid" for i
  proof -
    from rank_indices_valid [OF assms(1) ri that] obtain sims' where
      i: "i < length final" "0 \<le> final ! i" and
      nw: "np_where (apply_constraints_filter its c) sims' (- 1) = Inr final" by blast
    from rng that have il: "i < length its" by (simp add: list_all_iff)
    then have "i < length (apply_constraints_filter its c)"
      by (simp add: apply_constraints_filter_def)
    from np_where_kept [OF nw i(1) this] i(2) have "apply_constraints_filter its c ! i" by simp
    with il show ?thesis by (simp add: apply_constraints_filter_def)
  qed
  with out show ?thesis by (simp add: list_all_iff)
qed

lemma rank_candidates_scored:
  assumes "rank_candidates rt w menu q c top_k = (Inr out, w')"
  shows "out = [] \<or> (\<exists>sims. rank_scored rt (items menu) c top_k sims = Inr out)"
  using assms
  by (auto simp: rank_candidates_def Let_def split: if_splits prod.splits sum.splits list.splits)


lemma stable_argsort_spec: "argsort_spec stable_argsort"
  by (auto simp: argsort_spec_def stable_argsort_def)

lemmas eval_defs = rank_candidates_def example_runtime_def quiet_world_def plain_item_def
  empty_profile_def load_or_compute_embeddings_def compute_embeddings_def embed_texts_def
  rectangular_def query_text_of_def or_empty_def truthy_def cosine_similarity_def l2norm_def
  dot_def rank_scored_def rank_indices_def apply_constraints_filter_def item_passes_def
  allergen_hit_def np_where_def py_take_def stable_argsort_def Let_def no_constraints_def
  np_random_rand_def

text \<open>
  A menu of two items whose embeddings both equal the query's (cosine 1); the first one
  lists the allergen \<^verbatim>\<open>Peanuts\<close> and the caller avoids \<^verbatim>\<open>peanuts\<close>: only the second one
  is returned.
\<close>

lemma satay_example:
  "fst (rank_candidates example_runtime (quiet_world (\<lambda>k texts. Some (map (\<lambda>t. [1]) texts)) (\<lambda>i. 0))
     \<lparr>restaurant = empty_profile,
      items = [plain_item ''satay'' [''Peanuts''], plain_item ''salad'' []]\<rparr>
     [''x''] \<lparr>avoid_allergens = Some [''peanuts''], diet = None, price_preference = None\<rparr> 8)
   = Inr [plain_item ''salad'' []]"
proof -
  have l: "lower ''Peanuts'' = ''peanuts''" "lower ''peanuts'' = ''peanuts''" by code_simp+
  have s: "strip ''x'' = ''x''" by code_simp
  show ?thesis
    by (simp add: eval_defs s l)
qed

text \<open>
  What the ranker guarantees: an item whose mask entry is \<^term>\<open>False\<close> is never
  returned, whatever its similarity is. The allergen half of claim C1 follows: no item
  with an allergen of the avoid list is returned.
\<close>

lemma failed_item_never_returned:
  assumes "argsort_spec (argsort rt)"
    and "rank_candidates rt w menu q c top_k = (Inr out, w')"
    and "\<not> item_passes c item"
  shows "item \<notin> set out"
proof
  assume "item \<in> set out"
  with rank_candidates_scored [OF assms(2)] obtain sims where
    "rank_scored rt (items menu) c top_k sims = Inr out" by auto
  from rank_scored_passes [OF assms(1) this] \<open>item \<in> set out\<close> have "item_passes c item"
    by (simp add: list_all_iff)
  with assms(3) show False by simp
qed

lemma allergen_violation_never_returned:
  assumes "argsort_spec (argsort rt)"
    and "rank_candidates rt w menu q c top_k = (Inr out, w')"
    and "allergen_violation c item"
  shows "item \<notin> set out"
  using failed_item_never_returned [OF assms(1,2)] allergen_violation_fails [OF assms(3)]
  by blast

text \<open>
  Claim C1 fails on the code in its diet half. The vocabulary the code gives the tag
  \<^verbatim>\<open>vegan\<close> has the dairy terms but, unlike the one it gives \<^verbatim>\<open>vegetarian\<close>, neither
  \<^verbatim>\<open>turkey\<close> nor \<^verbatim>\<open>pork\<close>. With the only requested tag \<^verbatim>\<open>vegan\<close>, the text of the item
  \<^verbatim>\<open>pork chop\<close> holds the term \<^verbatim>\<open>pork\<close> of the exclusion vocabulary of the tag, the mask
  of the code keeps the item, and \<^verbatim>\<open>rank_candidates\<close> returns it.
\<close>

theorem vegan_pork_returned:
  "diet_violation vegan_request (plain_item ''pork chop'' []) \<and>
   item_passes vegan_request (plain_item ''pork chop'' []) \<and>
   fst (rank_candidates example_runtime
          (quiet_world (\<lambda>k texts. Some (map (\<lambda>t. [1]) texts)) (\<lambda>i. 0))
          pork_menu [''x''] vegan_request 8) = Inr [plain_item ''pork chop'' []]"
proof -
  have v: "diet_violation vegan_request (plain_item ''pork chop'' [])"
    by code_simp
  have p: "item_passes vegan_request (plain_item ''pork chop'' [])"
    by code_simp
  have s: "strip ''x vegan'' \<noteq> []"
    by code_simp
  have "fst (rank_candidates example_runtime
          (quiet_world (\<lambda>k texts. Some (map (\<lambda>t. [1]) texts)) (\<lambda>i. 0))
          pork_menu [''x''] vegan_request 8) = Inr [plain_item ''pork chop'' []]"
    using p s
    by (simp add: rank_candidates_def example_runtime_def quiet_world_def pork_menu_def
        load_or_compute_embeddings_def compute_embeddings_def embed_texts_def
        rectangular_def query_text_of_def or_empty_def truthy_def cosine_similarity_def
        l2norm_def dot_def rank_scored_def rank_indices_def apply_constraints_filter_def
        np_where_def py_take_def stable_argsort_def Let_def vegan_request_def)
  with v p show ?thesis by simp
qed

lemma insort_key_lex:
  assumes "sorted_wrt (\<lambda>i j. f i < f j \<or> (f i = f j \<and> i < j)) ys" and "\<forall>y\<in>set ys. (x::nat) < y"
  shows "sorted_wrt (\<lambda>i j. f i < f j \<or> (f i = f j \<and> i < j)) (insort_key f x ys)"
  using assms
proof (induction ys)
  case Nil
  then show ?case by simp
next
  case (Cons y ys)
  show ?case
  proof (cases "f x \<le> f y")
    case True
    have "f x < f z \<or> (f x = f z \<and> x < z)" if "z \<in> set (y # ys)" for z :: nat
    proof -
      have "f y \<le> f z" using that Cons.prems(1) by auto
      with True Cons.prems(2) that show ?thesis by force
    qed
    with True Cons.prems(1) show ?thesis by auto
  next
    case False
    with Cons show ?thesis by (auto simp: set_insort_key)
  qed
qed

lemma sort_key_lex:
  fixes f :: "nat \<Rightarrow> real"
  shows "sorted_wrt (<) xs \<Longrightarrow>
    sorted_wrt (\<lambda>i j. f i < f j \<or> (f i = f j \<and> i < j)) (sort_key f xs)"
proof (induction xs)
  case Nil
  then show ?case by simp
next
  case (Cons x xs)
  then have "sorted_wrt (\<lambda>i j. f i < f j \<or> (f i = f j \<and> i < j)) (sort_key f xs)"
    and "\<forall>y\<in>set (sort_key f xs). x < y" by auto
  then show ?case by (simp add: insort_key_lex)
qed

lemma stable_argsort_lex:
  "sorted_wrt (\<lambda>i j. xs ! i < xs ! j \<or> (xs ! i = xs ! j \<and> i < j)) (stable_argsort xs)"
  unfolding stable_argsort_def
  by (rule sort_key_lex) (simp add: sorted_wrt_upt)

lemma length_py_take: "0 \<le> k \<Longrightarrow> length (py_take k xs) \<le> nat k"
  by (simp add: py_take_def)

lemma sorted_wrt_py_take: "sorted_wrt P xs \<Longrightarrow> sorted_wrt P (py_take k xs)"
  by (simp add: py_take_def sorted_wrt_take)

lemma rank_scored_indices:
  assumes "rank_scored rt its c top_k sims = Inr out"
  shows "\<exists>final valid. rank_indices rt its c top_k sims = Inr (final, valid) \<and>
           out = map (\<lambda>i. its ! i) valid"
  using assms by (auto simp: rank_scored_def split: sum.splits prod.splits if_splits)

text \<open>
  For a menu that is not empty, \<^verbatim>\<open>rank_candidates\<close> is the ranking of the similarities
  of \<^term>\<open>query_similarities\<close>, and what it returns is read off the final scores of
  \<^term>\<open>adjusted_scores\<close>.
\<close>

lemma rank_candidates_by_similarities:
  assumes "items menu \<noteq> []"
  shows "rank_candidates rt w menu q c top_k =
     (case query_similarities rt w menu q c of
        (Inl e, w2) \<Rightarrow> (Inl e, w2)
      | (Inr sims, w2) \<Rightarrow> (rank_scored rt (items menu) c top_k sims, w2))"
  using assms
  by (simp add: rank_candidates_def query_similarities_def Let_def
      split: prod.splits sum.splits list.splits)

lemma rank_candidates_final:
  assumes "items menu \<noteq> []" and "rank_candidates rt w menu q c top_k = (Inr out, w')"
  shows "\<exists>final. adjusted_scores rt w menu q c = Inr final \<and>
           out = map (\<lambda>i. items menu ! i)
                   (filter (\<lambda>i. 0 \<le> final ! i) (py_take top_k (rev (argsort rt final))))"
proof -
  from assms(2) obtain sims where
    qs: "fst (query_similarities rt w menu q c) = Inr sims" and
    rs: "rank_scored rt (items menu) c top_k sims = Inr out"
    unfolding rank_candidates_by_similarities [OF assms(1)]
    by (auto split: prod.splits sum.splits)
  from rank_scored_indices [OF rs] obtain final valid where
    ri: "rank_indices rt (items menu) c top_k sims = Inr (final, valid)" and
    out: "out = map (\<lambda>i. items menu ! i) valid" by blast
  from ri qs have "adjusted_scores rt w menu q c = Inr final"
    by (auto simp: rank_indices_def adjusted_scores_def Let_def split: sum.splits if_splits)
  moreover from ri have
    "valid = filter (\<lambda>i. 0 \<le> final ! i) (py_take top_k (rev (argsort rt final)))"
    by (auto simp: rank_indices_def Let_def split: sum.splits if_splits)
  ultimately show ?thesis using out by blast
qed

lemma valid_indices_sorted:
  assumes "argsort_spec (argsort rt)" and "0 \<le> top_k"
    and "valid = filter (\<lambda>i. 0 \<le> final ! i) (py_take top_k (rev (argsort rt final)))"
  shows "length valid \<le> nat top_k"
    and "sorted_wrt (\<lambda>i j. final ! j \<le> final ! i) valid"
    and "argsort rt = stable_argsort \<Longrightarrow> sorted_wrt (\<lambda>i j. final ! i = final ! j \<longrightarrow> j < i) valid"
proof -
  note v = assms(3)
  have "length valid \<le> length (py_take top_k (rev (argsort rt final)))"
    unfolding v by (rule length_filter_le)
  with length_py_take [OF assms(2)] show "length valid \<le> nat top_k"
    using le_trans by blast
  from assms(1) have "sorted (map (\<lambda>i. final ! i) (argsort rt final))"
    by (simp add: argsort_spec_def)
  then have "sorted_wrt (\<lambda>i j. final ! i \<le> final ! j) (argsort rt final)"
    by (simp add: sorted_wrt_map)
  then have "sorted_wrt (\<lambda>i j. final ! j \<le> final ! i) (rev (argsort rt final))"
    by (simp add: sorted_wrt_rev)
  then show "sorted_wrt (\<lambda>i j. final ! j \<le> final ! i) valid"
    unfolding v by (intro sorted_wrt_filter sorted_wrt_py_take)
  show "sorted_wrt (\<lambda>i j. final ! i = final ! j \<longrightarrow> j < i) valid" if "argsort rt = stable_argsort"
  proof -
    have "sorted_wrt (\<lambda>i j. final ! i < final ! j \<or> (final ! i = final ! j \<and> i < j))
            (argsort rt final)"
      unfolding that by (rule stable_argsort_lex)
    then have "sorted_wrt (\<lambda>i j. final ! i = final ! j \<longrightarrow> i < j) (argsort rt final)"
      by (rule sorted_wrt_mono_rel [rotated]) auto
    then have "sorted_wrt (\<lambda>i j. final ! i = final ! j \<longrightarrow> j < i) (rev (argsort rt final))"
      by (simp add: sorted_wrt_rev eq_commute)
    then show ?thesis
      unfolding v by (intro sorted_wrt_filter sorted_wrt_py_take)
  qed
qed

text \<open>
  Claim C3, as the code has it. Let \<^term>\<open>top_k\<close> be not negative. From an empty menu
  nothing is returned. From any other menu \<^verbatim>\<open>rank_candidates\<close> returns at most
  \<^term>\<open>top_k\<close> items: the items at the indices \<^term>\<open>valid\<close>, which the code reads off the
  adjusted scores \<^term>\<open>final\<close> it computed, and along which the adjusted score does not
  increase. Ties are not in menu order: the indices come from \<^verbatim>\<open>argsort\<close> read
  backwards, so with a stable \<^verbatim>\<open>argsort\<close> two returned items of equal adjusted score
  come out in the reverse of their menu order.
\<close>

theorem rank_at_most_k_sorted:
  assumes "argsort_spec (argsort rt)" and "0 \<le> top_k"
    and "rank_candidates rt w menu q c top_k = (Inr out, w')"
  shows "length out \<le> nat top_k \<and>
         (items menu = [] \<longrightarrow> out = []) \<and>
         (items menu \<noteq> [] \<longrightarrow>
            (\<exists>final. adjusted_scores rt w menu q c = Inr final \<and>
               (let valid = filter (\<lambda>i. 0 \<le> final ! i) (py_take top_k (rev (argsort rt final)))
                in out = map (\<lambda>i. items menu ! i) valid \<and>
                   sorted_wrt (\<lambda>i j. final ! j \<le> final ! i) valid \<and>
                   (argsort rt = stable_argsort \<longrightarrow>
                      sorted_wrt (\<lambda>i j. final ! i = final ! j \<longrightarrow> j < i) valid))))"
proof (cases "items menu = []")
  case True
  with assms(3) show ?thesis by (simp add: rank_candidates_def)
next
  case False
  from rank_candidates_final [OF False assms(3)] obtain final where
    f: "adjusted_scores rt w menu q c = Inr final" and
    out: "out = map (\<lambda>i. items menu ! i)
            (filter (\<lambda>i. 0 \<le> final ! i) (py_take top_k (rev (argsort rt final))))"
    by blast
  from valid_indices_sorted [OF assms(1,2) refl, of final] f out False
  show ?thesis by (auto simp: Let_def)
qed

lemma tie_example:
  "fst (rank_candidates example_runtime tie_world menu_ABCD [] no_constraints 3) =
     Inr [plain_item ''B'' [], plain_item ''C'' [], plain_item ''A'' []]"
proof -
  have s: "strip [] = []" by code_simp
  have u: "[0..<4] = [0, 1, 2, 3]" by (simp add: upt_rec)
  have f: "frac (1 / 2 :: real) = 1 / 2" "frac (3 / 4 :: real) = 3 / 4"
    "frac (1 / 4 :: real) = 1 / 4" by (simp_all add: frac_def)
  show ?thesis
    by (simp add: eval_defs tie_world_def menu_ABCD_def s u f)
qed

lemma tie_example_pair:
  "rank_candidates example_runtime tie_world menu_ABCD [] no_constraints 3 =
     (Inr [plain_item ''B'' [], plain_item ''C'' [], plain_item ''A'' []],
      snd (rank_candidates example_runtime tie_world menu_ABCD [] no_constraints 3))"
  using tie_example by (metis prod.collapse)

lemma tie_scores:
  "adjusted_scores example_runtime tie_world menu_ABCD [] no_constraints =
     Inr [1 / 2, 3 / 4, 1 / 2, 1 / 4]"
proof -
  have s: "strip [] = []" by code_simp
  have u: "[0..<4] = [0, 1, 2, 3]" by (simp add: upt_rec)
  have f: "frac (1 / 2 :: real) = 1 / 2" "frac (3 / 4 :: real) = 3 / 4"
    "frac (1 / 4 :: real) = 1 / 4" by (simp_all add: frac_def)
  show ?thesis
    by (simp add: adjusted_scores_def query_similarities_def eval_defs tie_world_def
        menu_ABCD_def s u f)
qed

text \<open>
  The statement at a menu of four items with the adjusted scores one half, three
  quarters, one half and one quarter, and three items asked for: \<^verbatim>\<open>B\<close> comes first,
  then the tied \<^verbatim>\<open>C\<close> and \<^verbatim>\<open>A\<close> against their menu order, and \<^verbatim>\<open>D\<close> is cut.
\<close>

theorem rank_at_most_k_sorted_witness:
  "argsort_spec (argsort example_runtime) \<and> (0::int) \<le> 3 \<and> items menu_ABCD \<noteq> [] \<and>
   fst (rank_candidates example_runtime tie_world menu_ABCD [] no_constraints 3) =
     Inr [plain_item ''B'' [], plain_item ''C'' [], plain_item ''A'' []] \<and>
   adjusted_scores example_runtime tie_world menu_ABCD [] no_constraints =
     Inr [1 / 2, 3 / 4, 1 / 2, 1 / 4] \<and>
   filter (\<lambda>i. 0 \<le> [1 / 2, 3 / 4, 1 / 2, 1 / 4 :: real] ! i)
     (py_take 3 (rev (argsort example_runtime [1 / 2, 3 / 4, 1 / 2, 1 / 4]))) = [1, 2, 0] \<and>
   length [plain_item ''B'' [], plain_item ''C'' [], plain_item ''A'' []] \<le> nat 3 \<and>
   sorted_wrt (\<lambda>i j. [1 / 2, 3 / 4, 1 / 2, 1 / 4 :: real] ! j \<le> [1 / 2, 3 / 4, 1 / 2, 1 / 4] ! i)
     [1, 2, 0]"
proof -
  have h1: "argsort_spec (argsort example_runtime)"
    by (simp add: example_runtime_def stable_argsort_spec)
  have h0: "(0::int) \<le> 3" by simp
  have ne: "items menu_ABCD \<noteq> []" by (simp add: menu_ABCD_def)
  have u: "[0..<4] = [0, 1, 2, 3]" by (simp add: upt_rec)
  have v: "filter (\<lambda>i. 0 \<le> [1 / 2, 3 / 4, 1 / 2, 1 / 4 :: real] ! i)
     (py_take 3 (rev (argsort example_runtime [1 / 2, 3 / 4, 1 / 2, 1 / 4]))) = [1, 2, 0]"
    by (simp add: example_runtime_def stable_argsort_def py_take_def u)
  from rank_at_most_k_sorted [OF h1 h0 tie_example_pair] ne tie_scores v h1 tie_example
  show ?thesis by (simp add: Let_def)
qed

text \<open>
  Claim C3 as stated fails in its tie-breaking: with an empty query the similarities are
  the random baseline; let both of two items draw one half. The stable argsort gives the
  indices 0, 1, the code reads them backwards, and item \<^verbatim>\<open>B\<close> is returned before item
  \<^verbatim>\<open>A\<close>, against their order in the menu. It also fails for a negative \<^term>\<open>top_k\<close>:
  \<^verbatim>\<open>[:-1]\<close> drops the last index only, and with \<^verbatim>\<open>top_k = -1\<close> one item is returned.
\<close>

theorem rank_ties_reversed_counterexample:
  "fst (rank_candidates example_runtime
          (quiet_world (\<lambda>k texts. Some (map (\<lambda>t. [1]) texts)) (\<lambda>i. 1 / 2))
          menu_AB [] no_constraints 8)
     = Inr [plain_item ''B'' [], plain_item ''A'' []] \<and>
   adjusted_scores example_runtime
     (quiet_world (\<lambda>k texts. Some (map (\<lambda>t. [1]) texts)) (\<lambda>i. 1 / 2))
     menu_AB [] no_constraints = Inr [1 / 2, 1 / 2] \<and>
   items menu_AB = [plain_item ''A'' [], plain_item ''B'' []] \<and>
   fst (rank_candidates example_runtime
          (quiet_world (\<lambda>k texts. Some (map (\<lambda>t. [1]) texts)) (\<lambda>i. 1 / 2))
          menu_AB [] no_constraints (- 1))
     = Inr [plain_item ''B'' []] \<and>
   \<not> int (length [plain_item ''B'' []]) \<le> - 1"
proof -
  have s: "strip [] = []" by code_simp
  have u: "[0..<2] = [0, 1]" by (simp add: upt_rec)
  have f: "frac (1 / 2 :: real) = 1 / 2" by (simp add: frac_def)
  show ?thesis
    by (simp add: adjusted_scores_def query_similarities_def eval_defs menu_AB_def s u f)
qed

text \<open>
  Claim C9 fails on the code. The only item of the menu passes the hard filter (there
  are no constraints) and is ranked first, its cosine similarity to the query is
  \<^verbatim>\<open>-0.6\<close>, above the sentinel \<^verbatim>\<open>-1.0\<close>; the last filter keeps scores of at least
  \<^verbatim>\<open>0\<close> only, and nothing is returned.
\<close>

theorem negative_similarity_dropped:
  "item_passes no_constraints (plain_item ''salad'' []) \<and>
   cosine_similarity [- 5, 0] [[3, 4]] = Inr [- 3 / 5] \<and>
   fst (rank_candidates example_runtime
          (quiet_world (\<lambda>k texts. if k = 0 then Some [[3, 4]] else Some [[- 5, 0]]) (\<lambda>i. 0))
          \<lparr>restaurant = empty_profile, items = [plain_item ''salad'' []]\<rparr>
          [''x''] no_constraints 8) = Inr []"
proof -
  have s: "strip ''x'' = ''x''" by code_simp
  have q: "sqrt 25 = 5" by (rule real_sqrt_unique) simp_all
  show ?thesis
    by (simp add: eval_defs s q)
qed

section \<open>Properties of the embedding cache\<close>

lemma path_AB:
  "get_embedding_cache_path digest_runtime menu_AB ''opt/menu_content'' =
     ''opt/menu_content/unknown_a0cc65639d226b7e.emb.npy''"
  by code_simp

lemma path_BA:
  "get_embedding_cache_path digest_runtime menu_BA ''opt/menu_content'' =
     ''opt/menu_content/unknown_811aabaf60d1f1d5.emb.npy''"
  by code_simp

text \<open>
  C5 (amended). The cache path is computed from the serialisation of the item list in
  the order of the menu, the restaurant name and the base directory, and from nothing
  else: two menus with the same sequence of items and the same restaurant name get the
  same path, whatever else they differ in and whatever file they were read from (the
  function is given no file name).
\<close>

theorem cache_path_same_item_sequence:
  assumes "items m1 = items m2"
      and "restaurant_name (restaurant m1) = restaurant_name (restaurant m2)"
  shows "get_embedding_cache_path rt m1 base_dir = get_embedding_cache_path rt m2 base_dir"
  using assms by (simp add: get_embedding_cache_path_def)

text \<open>
  The amended statement at two menus that differ in the display name of the restaurant
  only.
\<close>

theorem cache_path_same_item_sequence_witness:
  "get_embedding_cache_path digest_runtime menu_AB ''opt/menu_content'' =
   get_embedding_cache_path digest_runtime
     (menu_AB\<lparr>restaurant := empty_profile\<lparr>display_name := Some ''Cafe''\<rparr>\<rparr>) ''opt/menu_content''"
  using cache_path_same_item_sequence
    [of menu_AB "menu_AB\<lparr>restaurant := empty_profile\<lparr>display_name := Some ''Cafe''\<rparr>\<rparr>"
        digest_runtime "''opt/menu_content''"]
  by (simp add: menu_AB_def empty_profile_def)

text \<open>
  C5 as stated fails: \<^verbatim>\<open>sort_keys=True\<close> sorts the keys of each item, not the list of
  items. The menus \<^term>\<open>menu_AB\<close> and \<^term>\<open>menu_BA\<close> hold the same set of items for the
  same restaurant; their serialisations differ, and so do their SHA-256 digests and
  their cache paths.
\<close>

theorem cache_path_order_counterexample:
  "set (items menu_AB) = set (items menu_BA) \<and>
   restaurant menu_AB = restaurant menu_BA \<and>
   content_str (items menu_AB) \<noteq> content_str (items menu_BA) \<and>
   get_embedding_cache_path digest_runtime menu_AB ''opt/menu_content'' =
     ''opt/menu_content/unknown_a0cc65639d226b7e.emb.npy'' \<and>
   get_embedding_cache_path digest_runtime menu_BA ''opt/menu_content'' =
     ''opt/menu_content/unknown_811aabaf60d1f1d5.emb.npy''"
proof -
  have "set (items menu_AB) = set (items menu_BA)"
    by (auto simp add: menu_AB_def menu_BA_def)
  moreover have "restaurant menu_AB = restaurant menu_BA"
    by (simp add: menu_AB_def menu_BA_def)
  moreover have "content_str (items menu_AB) \<noteq> content_str (items menu_BA)"
    by code_simp
  ultimately show ?thesis
    using path_AB path_BA by simp
qed

text \<open>
  C7 (amended). The get-or-compute operation checks no row count. Unless recomputation
  is forced, an array that the cache file loads as is returned as it is, with no call to
  the embedding service, whatever its shape. A file that does not load, an absent file
  and a forced recomputation all lead to the computation, whose result is the answer of
  the embedding service to the texts of the items, one text per item.
\<close>

theorem load_or_compute_unverified:
  "(let p = get_embedding_cache_path rt menu ''opt/menu_content'' in
    (\<forall>m. \<not> force \<and> files w p = Some (Array m) \<longrightarrow>
         load_or_compute_embeddings rt w menu force = (Inr m, w)) \<and>
    (force \<or> files w p = None \<or> files w p = Some Corrupt \<longrightarrow>
         load_or_compute_embeddings rt w menu force = compute_embeddings w menu p) \<and>
    (\<forall>m w'. compute_embeddings w menu p = (Inr m, w') \<longrightarrow>
         embed w (length (embed_calls w)) (map build_item_text (items menu)) = Some m \<and>
         length (map build_item_text (items menu)) = length (items menu) \<and>
         embed_calls w' = embed_calls w @ [map build_item_text (items menu)]))"
  by (auto simp add: Let_def load_or_compute_embeddings_def compute_embeddings_def
      embed_texts_def split: option.splits npy.splits if_splits)

lemma compute_AB:
  "compute_embeddings (cached_world entry) menu_AB p =
     (Inr [[1], [1]],
      (cached_world entry)
        \<lparr>embed_calls := [[''a'', ''b'']],
         files := (files (cached_world entry))(p := Some (Array [[1], [1]]))\<rparr>)"
proof -
  have "map build_item_text (items menu_AB) = [''a'', ''b'']"
    by code_simp
  then show ?thesis
    by (simp add: compute_embeddings_def embed_texts_def cached_world_def rectangular_def)
qed

text \<open>
  The amended statement at a cache that holds a corrupt file for \<^term>\<open>menu_AB\<close> (the two
  rows are computed and stored) and at one that holds a loadable array.
\<close>

theorem load_or_compute_unverified_witness:
  "fst (load_or_compute_embeddings digest_runtime (cached_world (Some Corrupt)) menu_AB False) =
     Inr [[1], [1]] \<and>
   load_or_compute_embeddings digest_runtime (cached_world (Some (Array [[2], [3]]))) menu_AB False =
     (Inr [[2], [3]], cached_world (Some (Array [[2], [3]])))"
  using load_or_compute_unverified
    [of digest_runtime menu_AB False "cached_world (Some Corrupt)"]
    load_or_compute_unverified
    [of digest_runtime menu_AB False "cached_world (Some (Array [[2], [3]]))"]
  by (simp add: Let_def compute_AB) (simp add: cached_world_def)

text \<open>
  C7 as stated fails: the cache holds a one-row array at the path of the two-item menu
  \<^term>\<open>menu_AB\<close>; the operation returns that array, with one row for two items, and does
  not call the embedding service, which would have answered with two rows.
\<close>

theorem stale_cache_returned_counterexample:
  "load_or_compute_embeddings digest_runtime (cached_world (Some (Array [[1]]))) menu_AB False =
     (Inr [[1]], cached_world (Some (Array [[1]]))) \<and>
   length [[1::real]] \<noteq> length (items menu_AB) \<and>
   embed (cached_world (Some (Array [[1]]))) 0 (map build_item_text (items menu_AB)) =
     Some [[1], [1]]"
  by (simp add: load_or_compute_embeddings_def cached_world_def menu_AB_def)

section \<open>Properties of the agent\<close>

lemma hello_no_intent: "\<not> check_food_intent [] ''hello''"
  by code_simp

lemma parse_recommend:
  "parse_action_from_response fr (strip recommend_answer) =
     ([(''action'', JStr ''RECOMMEND''), (''intent_clear'', JBool True),
       (''notes'', JStr ''showing options'')], ''Try the soup.'')"
  by code_simp

lemma parse_finalize:
  "fst (parse_action_from_response fr (strip finalize_answer)) =
     [(''action'', JStr ''FINALIZE''), (''intent_clear'', JBool True),
      (''notes'', JStr ''order complete'')]"
  by code_simp

lemma candidates_json_empty: "candidates_json_of (build_system_prompt ag None) = []"
  by (simp add: build_system_prompt_def candidates_json_of_def Let_def)

text \<open>
  C2. When the local intent signal is false, \<^verbatim>\<open>respond\<close> returns no candidate, whatever
  action the decision of the model holds. No menu content is surfaced: the call makes
  no request to the embedding service and touches no cache file (the ranker does not
  run), and its only request to the chat service is the first one, whose system prompt
  is filled with an empty candidates JSON.
\<close>

theorem no_intent_no_candidates:
  assumes "\<not> check_food_intent history user_message"
  shows "case respond rt w ag history user_message of
           ((reply_text, action, candidates, maybe_order), w') \<Rightarrow>
              candidates = [] \<and>
              embed_calls w' = embed_calls w \<and> files w' = files w \<and>
              chat_calls w' =
                chat_calls w @
                [(build_system_prompt ag None, conversation_context history user_message)] \<and>
              candidates_json_of (build_system_prompt ag None) = []"
proof (cases "chat w (length (chat_calls w)) (build_system_prompt ag None)
                (conversation_context history user_message)")
  case None
  then show ?thesis
    using candidates_json_empty [of ag]
    by (simp add: respond_def chat_completion_def error_response_def Let_def)
next
  case (Some response_content)
  obtain d r where
    "parse_action_from_response (float_repr rt) (strip response_content) = (d, r)"
    by force
  with Some assms show ?thesis
    using candidates_json_empty [of ag]
    by (simp add: respond_def chat_completion_def Let_def)
qed

lemma hello_response:
  "fst (respond example_runtime (chatty_world recommend_answer) example_agent [] ''hello'') =
     (''Try the soup.'', JStr ''RECOMMEND'', [], None)"
  using hello_no_intent parse_recommend [of "float_repr example_runtime"]
  by (simp add: respond_def chat_completion_def chatty_world_def Let_def dict_get_def)

text \<open>
  The statement at the message \<^verbatim>\<open>hello\<close> with an empty history and a model that decides
  to recommend: the action is \<^verbatim>\<open>RECOMMEND\<close> and the candidate list is empty.
\<close>

theorem no_intent_no_candidates_witness:
  "\<not> check_food_intent [] ''hello'' \<and>
   fst (respond example_runtime (chatty_world recommend_answer) example_agent [] ''hello'') =
     (''Try the soup.'', JStr ''RECOMMEND'', [], None) \<and>
   embed_calls
     (snd (respond example_runtime (chatty_world recommend_answer) example_agent [] ''hello'')) = []"
  using no_intent_no_candidates
    [where history = "[]" and user_message = "''hello''" and rt = example_runtime
       and w = "chatty_world recommend_answer" and ag = example_agent]
    hello_no_intent hello_response
  by (simp add: chatty_world_def split: prod.splits)

lemma strip_example_item: "strip ''Example Item'' = ''Example Item''"
  by code_simp

lemma finalize_order_example:
  "order (finalize_order ag w [''Example Item'']) =
     [\<lparr>item_name = ''Example Item'', item_notes = None\<rparr>] \<and>
   confidence (finalize_order ag w [''Example Item'']) = 0.8"
  by (simp add: finalize_order_def Let_def strip_example_item)

text \<open>
  C10. Whenever \<^verbatim>\<open>respond\<close> returns an order, the action is \<^verbatim>\<open>FINALIZE\<close>, the order is the
  single item named \<^verbatim>\<open>Example Item\<close> with no notes, and the confidence is 0.8, whatever
  the history, the message, the menu and the services are.
\<close>

theorem order_is_placeholder:
  assumes "fst (respond rt w ag history user_message) =
             (reply_text, action, candidates, Some final_order)"
  shows "order final_order = [\<lparr>item_name = ''Example Item'', item_notes = None\<rparr>] \<and>
         confidence final_order = 0.8 \<and> action = JStr ''FINALIZE''"
proof (cases "chat w (length (chat_calls w)) (build_system_prompt ag None)
                (conversation_context history user_message)")
  case None
  with assms show ?thesis
    by (simp add: respond_def chat_completion_def error_response_def Let_def)
next
  case (Some response_content)
  obtain d r where
    p: "parse_action_from_response (float_repr rt) (strip response_content) = (d, r)"
    by force
  let ?w1 = "w\<lparr>chat_calls := chat_calls w @
              [(build_system_prompt ag None, conversation_context history user_message)]\<rparr>"
  let ?action = "dict_get d ''action'' (JStr ''ASK'')"
  show ?thesis
  proof (cases "?action \<in> set [JStr ''LOOKUP'', JStr ''RECOMMEND'', JStr ''REFINE''] \<and>
                check_food_intent history user_message")
    case True
    obtain kws w2 where k: "extract_user_keywords ?w1 user_message = (kws, w2)"
      by force
    obtain cands w3 where
      l: "lookup_candidates rt w2 ag kws
            \<lparr>avoid_allergens = Some [], diet = Some [], price_preference = None\<rparr> = (cands, w3)"
      by force
    from assms Some p True k l have False
      by (simp add: respond_def chat_completion_def error_response_def Let_def
          split: if_splits option.splits)
    then show ?thesis ..
  next
    case False
    with assms Some p show ?thesis
      using finalize_order_example [of ag ?w1]
      by (auto simp add: respond_def chat_completion_def Let_def split: if_splits)
  qed
qed

lemma bye_response:
  "fst (respond example_runtime (chatty_world finalize_answer) example_agent [] ''bye'') =
     (FINALIZE_REPLY, JStr ''FINALIZE'', [],
      Some (finalize_order example_agent (chatty_world finalize_answer) [''Example Item'']))"
proof -
  obtain r where
    "parse_action_from_response (float_repr example_runtime) (strip finalize_answer) =
       ([(''action'', JStr ''FINALIZE''), (''intent_clear'', JBool True),
         (''notes'', JStr ''order complete'')], r)"
    using parse_finalize [of "float_repr example_runtime"] by (metis prod.collapse)
  then show ?thesis
    by (simp add: respond_def chat_completion_def chatty_world_def Let_def dict_get_def
        finalize_order_def)
qed

text \<open>The statement at a model that decides to finalise: an order is returned.\<close>

theorem order_is_placeholder_witness:
  "snd (snd (snd (fst (respond example_runtime (chatty_world finalize_answer) example_agent []
      ''bye'')))) =
     Some (finalize_order example_agent (chatty_world finalize_answer) [''Example Item'']) \<and>
   order (finalize_order example_agent (chatty_world finalize_answer) [''Example Item'']) =
     [\<lparr>item_name = ''Example Item'', item_notes = None\<rparr>] \<and>
   confidence (finalize_order example_agent (chatty_world finalize_answer) [''Example Item'']) =
     0.8"
  using order_is_placeholder
    [where rt = example_runtime and w = "chatty_world finalize_answer" and ag = example_agent
       and history = "[]" and user_message = "''bye''" and reply_text = FINALIZE_REPLY
       and action = "JStr ''FINALIZE''" and candidates = "[]"
       and final_order =
         "finalize_order example_agent (chatty_world finalize_answer) [''Example Item'']"]
    bye_response
    finalize_order_example [of example_agent "chatty_world finalize_answer"]
  by simp

end
